theory Spec2Isabelle
  imports Complex_Main "HOL-Library.Word"
begin

section \<open>Strings, exceptions and JSON values\<close>

text \<open>
  The source is JavaScript (\<^verbatim>\<open>functions/index.js\<close>). A JavaScript string is a sequence
  of UTF-16 code units and \<^verbatim>\<open>.length\<close> counts code units, so a string is modelled as
  a list of 16-bit words. \<open>ustr\<close> turns an ASCII literal into such a string.
\<close>

type_synonym ustring = "16 word list"

definition ustr :: "string \<Rightarrow> ustring" where
  "ustr s = map of_char s"

text \<open>
  Every \<^verbatim>\<open>throw\<close> of the source and every rejection of an awaited call is a value of
  \<open>exn\<close>; a computation that may throw returns \<open>exn + 'a\<close> with \<open>Inl\<close> the exception.
  \<open>Fault\<close> carries the message of an error raised by an external collaborator
  (the store client, the model service, the blob store, the rendering service).
\<close>

datatype exn = SyntaxError | TypeError | InvalidArgument | DocumentMissing | Fault ustring

text \<open>
  The values \<^verbatim>\<open>JSON.parse\<close> produces. A number is kept as the exact rational its
  literal denotes (the source's numbers are doubles; it never computes with a parsed
  number and only tests some for truthiness). An object is its list of properties in the
  order of first insertion, with one entry per key (JavaScript lists integer-like keys
  first; the source never looks at the order).
\<close>

datatype json = JNull | JBool bool | JNum rat | JStr ustring | JArr "json list"
  | JObj "(ustring \<times> json) list"

subsection \<open>\<^verbatim>\<open>JSON.parse\<close>\<close>

text \<open>
  \<^verbatim>\<open>JSON.parse\<close> is the platform's decoder. It is written out here after the JSON
  grammar of ECMA-404, which ECMAScript prescribes for it: a lexer producing tokens and a
  stack machine reading them. The four whitespace characters are space, tab, line feed and
  carriage return; a string may hold any code unit from 0x20 on except the quote and the
  backslash, and the escapes \<^verbatim>\<open>\" \\ \/ \b \f \n \r \t \uXXXX\<close>; a number is
  \<^verbatim>\<open>-? (0 | [1-9][0-9]*) (. [0-9]+)? ([eE] [+-]? [0-9]+)?\<close>. A later duplicate key
  overwrites the value of the earlier one. Any other input is a \<open>SyntaxError\<close>.
\<close>

datatype token = TLBrace | TRBrace | TLBracket | TRBracket | TColon | TComma
  | TStr ustring | TNum rat | TTrue | TFalse | TNull

definition is_json_ws :: "16 word \<Rightarrow> bool" where
  "is_json_ws c = (c = 0x20 \<or> c = 0x09 \<or> c = 0x0A \<or> c = 0x0D)"

definition is_digit :: "16 word \<Rightarrow> bool" where
  "is_digit c = (0x30 \<le> c \<and> c \<le> 0x39)"

definition digit_val :: "16 word \<Rightarrow> nat" where
  "digit_val c = unat c - 0x30"

definition hex_val :: "16 word \<Rightarrow> nat option" where
  "hex_val c =
     (if 0x30 \<le> c \<and> c \<le> 0x39 then Some (unat c - 0x30)
      else if 0x41 \<le> c \<and> c \<le> 0x46 then Some (unat c - 0x41 + 10)
      else if 0x61 \<le> c \<and> c \<le> 0x66 then Some (unat c - 0x61 + 10)
      else None)"

definition hex4 :: "16 word \<Rightarrow> 16 word \<Rightarrow> 16 word \<Rightarrow> 16 word \<Rightarrow> 16 word option" where
  "hex4 a b c d =
     (case (hex_val a, hex_val b, hex_val c, hex_val d) of
        (Some w, Some x, Some y, Some z) \<Rightarrow> Some (of_nat (((w * 16 + x) * 16 + y) * 16 + z))
      | _ \<Rightarrow> None)"

definition unescape :: "16 word \<Rightarrow> 16 word option" where
  "unescape e =
     (if e = 0x22 then Some 0x22
      else if e = 0x5C then Some 0x5C
      else if e = 0x2F then Some 0x2F
      else if e = 0x62 then Some 0x08
      else if e = 0x66 then Some 0x0C
      else if e = 0x6E then Some 0x0A
      else if e = 0x72 then Some 0x0D
      else if e = 0x74 then Some 0x09
      else None)"

fun lex_string :: "ustring \<Rightarrow> ustring \<Rightarrow> (ustring \<times> ustring) option" where
  "lex_string [] acc = None"
| "lex_string (c # cs) acc =
     (if c = 0x22 then Some (rev acc, cs)
      else if c = 0x5C then
        (case cs of
           [] \<Rightarrow> None
         | e # cs' \<Rightarrow>
             if e = 0x75 then
               (case cs' of
                  h1 # h2 # h3 # h4 # cs'' \<Rightarrow>
                    (case hex4 h1 h2 h3 h4 of
                       None \<Rightarrow> None
                     | Some u \<Rightarrow> lex_string cs'' (u # acc))
                | _ \<Rightarrow> None)
             else
               (case unescape e of
                  None \<Rightarrow> None
                | Some u \<Rightarrow> lex_string cs' (u # acc)))
      else if c < 0x20 then None
      else lex_string cs (c # acc))"

definition digits_val :: "ustring \<Rightarrow> nat" where
  "digits_val ds = foldl (\<lambda>n d. n * 10 + digit_val d) 0 ds"

definition lex_frac :: "ustring \<Rightarrow> (rat \<times> ustring) option" where
  "lex_frac cs =
     (case cs of
        c # r \<Rightarrow>
          if c = 0x2E then
            (let fs = takeWhile is_digit r in
             if fs = [] then None
             else Some (of_nat (digits_val fs) / 10 ^ length fs, dropWhile is_digit r))
          else Some (0, cs)
      | [] \<Rightarrow> Some (0, cs))"

definition lex_exp :: "ustring \<Rightarrow> (int \<times> ustring) option" where
  "lex_exp cs =
     (case cs of
        c # r \<Rightarrow>
          if c = 0x65 \<or> c = 0x45 then
            (let (neg, r') = (case r of
                                s # r'' \<Rightarrow> if s = 0x2D then (True, r'')
                                           else if s = 0x2B then (False, r'')
                                           else (False, r)
                              | [] \<Rightarrow> (False, r));
                 es = takeWhile is_digit r' in
             if es = [] then None
             else Some ((if neg then - int (digits_val es) else int (digits_val es)),
                        dropWhile is_digit r'))
          else Some (0, cs)
      | [] \<Rightarrow> Some (0, cs))"

definition strip_minus :: "ustring \<Rightarrow> bool \<times> ustring" where
  "strip_minus cs =
     (case cs of
        c # r \<Rightarrow> if c = 0x2D then (True, r) else (False, cs)
      | [] \<Rightarrow> (False, cs))"

definition lex_number :: "ustring \<Rightarrow> (rat \<times> ustring) option" where
  "lex_number cs =
     (let (neg, cs1) = strip_minus cs;
          ds = takeWhile is_digit cs1;
          cs2 = dropWhile is_digit cs1 in
      if ds = [] \<or> (1 < length ds \<and> hd ds = 0x30) then None
      else
        (case lex_frac cs2 of
           None \<Rightarrow> None
         | Some (f, cs3) \<Rightarrow>
             (case lex_exp cs3 of
                None \<Rightarrow> None
              | Some (e, cs4) \<Rightarrow>
                  (let m = of_nat (digits_val ds) + f;
                       v = (if 0 \<le> e then m * 10 ^ nat e else m / 10 ^ nat (- e)) in
                   Some ((if neg then - v else v), cs4)))))"

lemma lex_string_shorter: "lex_string cs acc = Some (s, rest) \<Longrightarrow> length rest < length cs"
proof (induction cs acc rule: lex_string.induct)
  case (1 acc)
  then show ?case by simp
next
  case (2 c cs acc)
  show ?case
  proof (cases "c = 0x22")
    case True
    with "2.prems" show ?thesis by simp
  next
    case nq: False
    show ?thesis
    proof (cases "c = 0x5C")
      case bs: True
      show ?thesis
      proof (cases cs)
        case Nil
        with "2.prems" nq bs show ?thesis by simp
      next
        case (Cons e cs')
        show ?thesis
        proof (cases "e = 0x75")
          case u: True
          from "2.prems" nq bs Cons u obtain h1 h2 h3 h4 cs'' w where
            c: "cs' = h1 # h2 # h3 # h4 # cs''" and h: "hex4 h1 h2 h3 h4 = Some w"
            and r: "lex_string cs'' (w # acc) = Some (s, rest)"
            by (simp split: list.splits option.splits)
          from c Cons have cs_eq: "cs = e # h1 # h2 # h3 # h4 # cs''" by simp
          from "2.IH"(1) [OF nq bs cs_eq u refl refl refl refl h r] cs_eq show ?thesis by simp
        next
          case nu: False
          from "2.prems" nq bs Cons nu obtain w where
            h: "unescape e = Some w" and r: "lex_string cs' (w # acc) = Some (s, rest)"
            by (simp split: option.splits)
          from "2.IH"(2) [OF nq bs Cons nu h r] Cons show ?thesis by simp
        qed
      qed
    next
      case nbs: False
      from "2.prems" nq nbs have lt: "\<not> c < 0x20" and r: "lex_string cs (c # acc) = Some (s, rest)"
        by (simp_all split: if_splits)
      from "2.IH"(3) [OF nq nbs lt r] show ?thesis by simp
    qed
  qed
qed

lemma lex_frac_shorter: "lex_frac cs = Some (f, rest) \<Longrightarrow> length rest \<le> length cs"
  by (auto simp: lex_frac_def Let_def split: list.splits if_splits
      intro: le_trans [OF length_dropWhile_le])

lemma lex_exp_shorter: "lex_exp cs = Some (e, rest) \<Longrightarrow> length rest \<le> length cs"
  by (auto simp: lex_exp_def Let_def split: list.splits if_splits prod.splits
      intro: le_trans [OF length_dropWhile_le])

lemma strip_minus_shorter: "length (snd (strip_minus cs)) \<le> length cs"
  by (simp add: strip_minus_def split: list.splits)

lemma dropWhile_shorter: "takeWhile P xs \<noteq> [] \<Longrightarrow> length (dropWhile P xs) < length xs"
  by (cases xs) (auto simp: le_imp_less_Suc length_dropWhile_le split: if_splits)

lemma lex_number_shorter:
  assumes "lex_number cs = Some (v, rest)"
  shows "length rest < length cs"
proof -
  obtain neg cs1 where n: "strip_minus cs = (neg, cs1)"
    by (cases "strip_minus cs")
  have l1: "length cs1 \<le> length cs"
    using strip_minus_shorter [of cs] n by simp
  have ne: "takeWhile is_digit cs1 \<noteq> []"
  proof
    assume "takeWhile is_digit cs1 = []"
    then have "lex_number cs = None"
      by (simp add: lex_number_def n)
    with assms show False by simp
  qed
  obtain f cs3 where f: "lex_frac (dropWhile is_digit cs1) = Some (f, cs3)"
  proof (cases "lex_frac (dropWhile is_digit cs1)")
    case None
    then have "lex_number cs = None"
      by (simp add: lex_number_def n Let_def)
    with assms show ?thesis by simp
  next
    case (Some p)
    then show ?thesis using that by (cases p) simp
  qed
  obtain e cs4 where e: "lex_exp cs3 = Some (e, cs4)"
  proof (cases "lex_exp cs3")
    case None
    then have "lex_number cs = None"
      by (simp add: lex_number_def n f Let_def)
    with assms show ?thesis by simp
  next
    case (Some p)
    then show ?thesis using that by (cases p) simp
  qed
  have "rest = cs4"
    using assms by (simp add: lex_number_def n f e Let_def split: if_splits)
  moreover note lex_frac_shorter [OF f] lex_exp_shorter [OF e] l1 dropWhile_shorter [OF ne]
  ultimately show ?thesis
    by simp
qed

definition lit_true :: ustring where "lit_true = [0x74, 0x72, 0x75, 0x65]"
definition lit_false :: ustring where "lit_false = [0x66, 0x61, 0x6C, 0x73, 0x65]"
definition lit_null :: ustring where "lit_null = [0x6E, 0x75, 0x6C, 0x6C]"

function lex :: "ustring \<Rightarrow> token list option" where
  "lex [] = Some []"
| "lex (c # cs) =
     (if is_json_ws c then lex cs
      else if c = 0x7B then map_option ((#) TLBrace) (lex cs)
      else if c = 0x7D then map_option ((#) TRBrace) (lex cs)
      else if c = 0x5B then map_option ((#) TLBracket) (lex cs)
      else if c = 0x5D then map_option ((#) TRBracket) (lex cs)
      else if c = 0x3A then map_option ((#) TColon) (lex cs)
      else if c = 0x2C then map_option ((#) TComma) (lex cs)
      else if c = 0x22 then
        (case lex_string cs [] of
           None \<Rightarrow> None
         | Some (s, rest) \<Rightarrow> map_option ((#) (TStr s)) (lex rest))
      else if c = 0x2D \<or> is_digit c then
        (case lex_number (c # cs) of
           None \<Rightarrow> None
         | Some (v, rest) \<Rightarrow> map_option ((#) (TNum v)) (lex rest))
      else if take 4 (c # cs) = lit_true then map_option ((#) TTrue) (lex (drop 3 cs))
      else if take 5 (c # cs) = lit_false then map_option ((#) TFalse) (lex (drop 4 cs))
      else if take 4 (c # cs) = lit_null then map_option ((#) TNull) (lex (drop 3 cs))
      else None)"
  by pat_completeness auto
termination
proof (relation "measure length")
  show "wf (measure length)" by simp
next
  fix c cs x2 x y
  assume "lex_string cs [] = Some x2" "(x, y) = x2"
  then have "lex_string cs [] = Some (x, y)" by simp
  from lex_string_shorter [OF this] show "(y, c # cs) \<in> measure length" by simp
next
  fix c cs x2 x y
  assume "lex_number (c # cs) = Some x2" "(x, y) = x2"
  then have "lex_number (c # cs) = Some (x, y)" by simp
  from lex_number_shorter [OF this] show "(y, c # cs) \<in> measure length" by simp
qed simp_all

datatype frame = FArr "json list" | FObj "(ustring \<times> json) list" "ustring option"

datatype mode = ExpValue | ExpValueOrEnd | ExpKeyOrEnd | ExpKey | ExpColon | ExpCommaOrEnd | Done json

fun obj_set :: "(ustring \<times> json) list \<Rightarrow> ustring \<Rightarrow> json \<Rightarrow> (ustring \<times> json) list" where
  "obj_set [] k v = [(k, v)]"
| "obj_set ((k', v') # kvs) k v = (if k' = k then (k, v) # kvs else (k', v') # obj_set kvs k v)"

fun deliver :: "json \<Rightarrow> frame list \<Rightarrow> (mode \<times> frame list) option" where
  "deliver v [] = Some (Done v, [])"
| "deliver v (FArr xs # st) = Some (ExpCommaOrEnd, FArr (v # xs) # st)"
| "deliver v (FObj kvs (Some k) # st) = Some (ExpCommaOrEnd, FObj (obj_set kvs k v) None # st)"
| "deliver v (FObj kvs None # st) = None"

fun start_value :: "token \<Rightarrow> frame list \<Rightarrow> (mode \<times> frame list) option" where
  "start_value TLBrace st = Some (ExpKeyOrEnd, FObj [] None # st)"
| "start_value TLBracket st = Some (ExpValueOrEnd, FArr [] # st)"
| "start_value (TStr s) st = deliver (JStr s) st"
| "start_value (TNum n) st = deliver (JNum n) st"
| "start_value TTrue st = deliver (JBool True) st"
| "start_value TFalse st = deliver (JBool False) st"
| "start_value TNull st = deliver JNull st"
| "start_value _ st = None"

fun close_array :: "frame list \<Rightarrow> (mode \<times> frame list) option" where
  "close_array (FArr xs # st) = deliver (JArr (rev xs)) st"
| "close_array _ = None"

fun close_object :: "frame list \<Rightarrow> (mode \<times> frame list) option" where
  "close_object (FObj kvs None # st) = deliver (JObj kvs) st"
| "close_object _ = None"

fun set_key :: "ustring \<Rightarrow> frame list \<Rightarrow> (mode \<times> frame list) option" where
  "set_key k (FObj kvs None # st) = Some (ExpColon, FObj kvs (Some k) # st)"
| "set_key k _ = None"

fun after_comma :: "frame list \<Rightarrow> (mode \<times> frame list) option" where
  "after_comma (FArr xs # st) = Some (ExpValue, FArr xs # st)"
| "after_comma (FObj kvs None # st) = Some (ExpKey, FObj kvs None # st)"
| "after_comma _ = None"

fun step :: "mode \<Rightarrow> frame list \<Rightarrow> token \<Rightarrow> (mode \<times> frame list) option" where
  "step ExpValue st t = start_value t st"
| "step ExpValueOrEnd st t = (if t = TRBracket then close_array st else start_value t st)"
| "step ExpKeyOrEnd st t =
     (case t of TRBrace \<Rightarrow> close_object st | TStr k \<Rightarrow> set_key k st | _ \<Rightarrow> None)"
| "step ExpKey st t = (case t of TStr k \<Rightarrow> set_key k st | _ \<Rightarrow> None)"
| "step ExpColon st t = (if t = TColon then Some (ExpValue, st) else None)"
| "step ExpCommaOrEnd st t =
     (case t of
        TComma \<Rightarrow> after_comma st
      | TRBracket \<Rightarrow> close_array st
      | TRBrace \<Rightarrow> close_object st
      | _ \<Rightarrow> None)"
| "step (Done v) st t = None"

fun run :: "mode \<Rightarrow> frame list \<Rightarrow> token list \<Rightarrow> json option" where
  "run m st [] = (case m of Done v \<Rightarrow> Some v | _ \<Rightarrow> None)"
| "run m st (t # ts) = (case step m st t of None \<Rightarrow> None | Some (m', st') \<Rightarrow> run m' st' ts)"

definition JSON_parse :: "ustring \<Rightarrow> exn + json" where
  "JSON_parse raw =
     (case lex raw of
        None \<Rightarrow> Inl SyntaxError
      | Some ts \<Rightarrow> (case run ExpValue [] ts of None \<Rightarrow> Inl SyntaxError | Some v \<Rightarrow> Inr v))"

subsection \<open>The model-output parsing step\<close>

text \<open>
  \<^verbatim>\<open>try { ... } catch { ... }\<close>: the handler runs when the body throws, and its result
  (value or exception) is the result of the statement.
\<close>

definition try_catch :: "exn + 'a \<Rightarrow> (exn \<Rightarrow> exn + 'a) \<Rightarrow> exn + 'a" where
  "try_catch body handler = (case body of Inl e \<Rightarrow> handler e | Inr v \<Rightarrow> Inr v)"

text \<open>
  The parsing step, written three times in the source with the same text
  (\<^verbatim>\<open>analyzeResumeText\<close> lines 107-112, \<^verbatim>\<open>generateNewAnalysis\<close> lines 398-403,
  \<^verbatim>\<open>generatePdf\<close> lines 583-588):
  \<^verbatim>\<open>let parsed; try { parsed = JSON.parse(raw); } catch { parsed = {rawText: raw}; }\<close>
\<close>

definition parse :: "ustring \<Rightarrow> exn + json" where
  "parse raw = try_catch (JSON_parse raw) (\<lambda>_. Inr (JObj [(ustr ''rawText'', JStr raw)]))"

section \<open>The record store and the outside world\<close>

text \<open>
  Firestore documents of the collections \<^verbatim>\<open>file\<close>, \<^verbatim>\<open>analysis\<close>, \<^verbatim>\<open>user\<close> and
  \<^verbatim>\<open>users/../resumes/../versions\<close>, with the fields the source reads and writes. A
  field that may be absent is an \<open>option\<close> (\<open>None\<close> is JavaScript's \<^verbatim>\<open>undefined\<close> or
  \<^verbatim>\<open>null\<close>). The field \<^verbatim>\<open>analysis\<close> of a file document is the map written through
  the field paths \<^verbatim>\<open>analysis.N\<close>. Identifiers are atomic keys of their collection:
  the store client's reading of a \<^verbatim>\<open>/\<close> inside an identifier as a path separator is
  not modelled.
\<close>

record file_doc =
  file_owner :: "ustring option"
  file_path :: "ustring option"
  filename :: "ustring option"
  file_type :: "ustring option"
  uploadDate :: "nat option"
  lastUpdate :: "nat option"
  numAnalysis :: "int option"
  analysis :: "int \<rightharpoonup> ustring"

record analysis_doc =
  analysis_owner :: "ustring option"
  analysis_fileID :: ustring
  content :: json
  generateTime :: nat
  model :: ustring
  userRating :: "int option"
  userComment :: "ustring option"
  nextAnalysis :: "ustring option"

record user_doc =
  user_files :: "ustring list"

record mcp_payload =
  payload_text :: json
  payload_title :: ustring
  payload_pageSize :: ustring
  payload_margins :: ustring
  payload_fontFamily :: ustring
  payload_lineHeight :: rat
  payload_headerHtml :: ustring
  payload_footerHtml :: ustring
  payload_pageNumbers :: bool

record version_doc =
  version_pdf_url :: "json option"
  version_gcs_uri :: "json option"
  firebase_path :: ustring
  version_fileID :: ustring
  generated_at :: nat
  version_page_count :: json
  version_bytes :: json
  version_title :: "json option"
  generation_params :: mcp_payload

record store =
  files :: "ustring \<rightharpoonup> file_doc"
  analyses :: "ustring \<rightharpoonup> analysis_doc"
  users :: "ustring \<rightharpoonup> user_doc"
  versions :: "(ustring \<times> ustring \<times> ustring) \<rightharpoonup> version_doc"

text \<open>
  What a handler does to the outside is recorded in order: the log records it writes
  (one constructor per log statement of the source) and the calls it makes to the store,
  the model service, the blob store and the rendering service.
\<close>

datatype log_entry =
    WarnTextTooShort
  | ErrorFileDocNotFound ustring
  | InfoAnalysisSaved ustring ustring
  | ErrorAnalyzeResumeText exn
  | ConsoleErrorDetailed exn
  | ErrorPdfGenerationFailed ustring
  | InfoPdfSaved ustring
  | InfoAnalysisCompleted ustring
  | ErrorFailedToAnalyze exn
  | ErrorGeneratePdf exn

datatype effect =
    Log log_entry
  | StoreGet ustring ustring
  | RunTransaction
  | ModelCall
  | BlobDownload ustring
  | PdfParse
  | RenderCall
  | ArtifactFetch
  | BlobSave ustring

record world =
  db :: store
  trace :: "effect list"

definition emit :: "effect \<Rightarrow> world \<Rightarrow> world" where
  "emit e w = w\<lparr>trace := trace w @ [e]\<rparr>"

subsection \<open>String helpers of the platform\<close>

text \<open>
  \<^verbatim>\<open>String.prototype.trim\<close> removes ECMAScript's WhiteSpace and LineTerminator code
  units from both ends.
\<close>

definition is_js_ws :: "16 word \<Rightarrow> bool" where
  "is_js_ws c =
     (c \<in> set [0x09, 0x0A, 0x0B, 0x0C, 0x0D, 0x20, 0xA0, 0x1680, 0x2028, 0x2029, 0x202F,
               0x205F, 0x3000, 0xFEFF]
      \<or> (0x2000 \<le> c \<and> c \<le> 0x200A))"

definition trim :: "ustring \<Rightarrow> ustring" where
  "trim s = rev (dropWhile is_js_ws (rev (dropWhile is_js_ws s)))"

text \<open>
  The decimal text of an integer, as a template literal renders a number
  (\<^verbatim>\<open>`${fileID}-${newIdx}`\<close>). Counts are unbounded integers here and the source's
  are doubles: the two agree, in \<^verbatim>\<open>numAnalysis + 1\<close> and in the rendered text, as long
  as the count is a safe integer (below \<open>2^53\<close> in absolute value, \<open>safe_integer\<close>
  below), and every statement about a count that is incremented assumes that it is.
\<close>

function digits :: "nat \<Rightarrow> ustring" where
  "digits n = (if n < 10 then [of_nat (48 + n)] else digits (n div 10) @ [of_nat (48 + n mod 10)])"
  by pat_completeness auto
termination
  by (relation "measure id") auto

definition show_int :: "int \<Rightarrow> ustring" where
  "show_int i = (if i < 0 then 0x2D # digits (nat (- i)) else digits (nat i))"

text \<open>
  \<^verbatim>\<open>resp.response?.candidates?.[0]?.content?.parts?.[0]?.text || "{}"\<close>: the model's
  reply is the text of its first candidate when there is one (\<open>None\<close> when a link of the
  chain is missing); an absent or empty text becomes \<^verbatim>\<open>"{}"\<close>.
\<close>

definition raw_text :: "ustring option \<Rightarrow> ustring" where
  "raw_text t = (case t of None \<Rightarrow> ustr ''{}'' | Some s \<Rightarrow> if s = [] then ustr ''{}'' else s)"

text \<open>\<^verbatim>\<open>x || 0\<close> on a number: an absent field and 0 both give 0.\<close>

definition or_zero :: "int option \<Rightarrow> int" where
  "or_zero x = (case x of None \<Rightarrow> 0 | Some n \<Rightarrow> n)"

text \<open>The template literal \<^verbatim>\<open>`${fileID}-${newIdx}`\<close> that names an analysis document.\<close>

definition analysisID_of :: "ustring \<Rightarrow> int \<Rightarrow> ustring" where
  "analysisID_of fileID idx = fileID @ ustr ''-'' @ show_int idx"

definition GENERATION_MODEL :: ustring where
  "GENERATION_MODEL = ustr ''gemini-2.5-flash''"

section \<open>\<^verbatim>\<open>analyzeResumeText\<close>\<close>

text \<open>
  What the outside answers during one call: whether creating the model client throws,
  what \<^verbatim>\<open>model.generateContent\<close> returns, whether \<^verbatim>\<open>runTransaction\<close> is rejected by
  the store client (transport, contention, a value it refuses; then nothing is written),
  and the server timestamp.
\<close>

record analyze_env =
  ae_vertex :: "exn option"
  ae_generate :: "exn + ustring option"
  ae_commit_fault :: "exn option"
  ae_now :: nat

text \<open>
  The transaction of lines 116-145. The file document is read inside the transaction.
  When it is missing, the callback logs an error and returns, and the transaction commits
  nothing. Otherwise the next index is the document's \<^verbatim>\<open>numAnalysis || 0\<close> plus one; the
  file document is updated and the analysis document is set.
\<close>

definition analyze_transaction ::
    "analyze_env \<Rightarrow> ustring \<Rightarrow> json \<Rightarrow> world \<Rightarrow> (exn + unit) \<times> world" where
  "analyze_transaction env fileID parsed w =
     (let w1 = emit RunTransaction w in
      case ae_commit_fault env of
        Some e \<Rightarrow> (Inl e, w1)
      | None \<Rightarrow>
          (case files (db w1) fileID of
             None \<Rightarrow> (Inr (), emit (Log (ErrorFileDocNotFound fileID)) w1)
           | Some fileDoc \<Rightarrow>
               (let currentNumAnalysis = or_zero (numAnalysis fileDoc);
                    newIdx = currentNumAnalysis + 1;
                    analysisID = analysisID_of fileID newIdx;
                    fileDoc' = fileDoc\<lparr>lastUpdate := Some (ae_now env),
                                       numAnalysis := Some newIdx,
                                       analysis := (analysis fileDoc)(newIdx \<mapsto> analysisID)\<rparr>;
                    analysisDoc = \<lparr>analysis_owner =
                                     Some (case file_owner fileDoc of None \<Rightarrow> [] | Some ow \<Rightarrow> ow),
                                   analysis_fileID = fileID,
                                   content = parsed,
                                   generateTime = ae_now env,
                                   model = GENERATION_MODEL,
                                   userRating = None,
                                   userComment = None,
                                   nextAnalysis = None\<rparr>
                in (Inr (),
                    w1\<lparr>db := (db w1)\<lparr>files := (files (db w1))(fileID \<mapsto> fileDoc'),
                                       analyses := (analyses (db w1))(analysisID \<mapsto> analysisDoc)\<rparr>\<rparr>))))"

text \<open>
  The body of the \<^verbatim>\<open>try\<close> block, lines 64-148. \<^verbatim>\<open>.doc(fileID)\<close> throws on an empty
  identifier.
\<close>

definition analyzeResumeText_body ::
    "analyze_env \<Rightarrow> ustring \<Rightarrow> ustring \<Rightarrow> ustring \<Rightarrow> world \<Rightarrow> (exn + json) \<times> world" where
  "analyzeResumeText_body env text fileID filePath w =
     (let w0 = (if length (trim text) < 100 then emit (Log WarnTextTooShort) w else w) in
      case ae_vertex env of
        Some e \<Rightarrow> (Inl e, w0)
      | None \<Rightarrow>
          (let w1 = emit ModelCall w0 in
           case ae_generate env of
             Inl e \<Rightarrow> (Inl e, w1)
           | Inr resp \<Rightarrow>
               (case parse (raw_text resp) of
                  Inl e \<Rightarrow> (Inl e, w1)
                | Inr parsed \<Rightarrow>
                    if fileID = [] then (Inl InvalidArgument, w1)
                    else
                      (case analyze_transaction env fileID parsed w1 of
                         (Inl e, w2) \<Rightarrow> (Inl e, w2)
                       | (Inr _, w2) \<Rightarrow>
                           (Inr parsed, emit (Log (InfoAnalysisSaved fileID filePath)) w2)))))"

text \<open>
  \<^verbatim>\<open>analyzeResumeText(text, fileID, filePath)\<close>: the \<^verbatim>\<open>catch\<close> of lines 149-152 logs
  the error and throws it again.
\<close>

definition analyzeResumeText ::
    "analyze_env \<Rightarrow> ustring \<Rightarrow> ustring \<Rightarrow> ustring \<Rightarrow> world \<Rightarrow> (exn + json) \<times> world" where
  "analyzeResumeText env text fileID filePath w =
     (case analyzeResumeText_body env text fileID filePath w of
        (Inl error, w') \<Rightarrow> (Inl error, emit (Log (ErrorAnalyzeResumeText error)) w')
      | (Inr parsed, w') \<Rightarrow> (Inr parsed, w'))"

section \<open>\<^verbatim>\<open>generateNewAnalysis\<close>\<close>

text \<open>
  The request body, destructured at line 319. JavaScript's truthiness decides line 321:
  an absent field, the empty string and the number 0 are falsy.
\<close>

record gna_request =
  req_fileID :: "ustring option"
  req_analysisID :: "ustring option"
  req_userRating :: "int option"
  req_userComment :: "ustring option"

definition truthy_string :: "ustring option \<Rightarrow> bool" where
  "truthy_string x = (case x of None \<Rightarrow> False | Some s \<Rightarrow> s \<noteq> [])"

definition truthy_number :: "int option \<Rightarrow> bool" where
  "truthy_number x = (case x of None \<Rightarrow> False | Some n \<Rightarrow> n \<noteq> 0)"

text \<open>The HTTP response: the status and the body sent.\<close>

record pdf_success =
  success_pdf_url :: "json option"
  success_firebase_path :: ustring
  success_gcs_uri :: "json option"
  success_page_count :: "json option"
  success_bytes :: "json option"
  success_title :: "json option"
  success_rendered_at :: "json option"
  success_fileID :: ustring

datatype body =
    ErrorMessage ustring
  | ErrorOf exn
  | NewAnalysisID ustring
  | PdfGenerationFailed ustring
  | PdfSuccess pdf_success

type_synonym response = "nat \<times> body"

text \<open>
  What the outside answers during one request, in the order of the awaited calls: the
  read of the analysis document, the creation of the model client, the read of the file
  document, the download of the stored file, the text extraction, the model call, and the
  transaction.
\<close>

record gna_env =
  ge_get_analysis :: "exn option"
  ge_vertex :: "exn option"
  ge_get_file :: "exn option"
  ge_download :: "exn option"
  ge_pdfParse :: "exn option"
  ge_generate :: "exn + ustring option"
  ge_commit_fault :: "exn option"
  ge_now :: nat

text \<open>The \<^verbatim>\<open>catch\<close> of lines 450-453.\<close>

definition gna_caught :: "exn \<Rightarrow> world \<Rightarrow> response \<times> world" where
  "gna_caught error w = ((500, ErrorOf error), emit (Log (ConsoleErrorDetailed error)) w)"

text \<open>What steps 1 to 3 hand to step 4: the identifiers, the snapshot of the file
  document read at line 340, and the parsed model output.\<close>

record gna_pending =
  p_fileID :: ustring
  p_analysisID :: ustring
  p_fileDoc :: file_doc
  p_parsed :: json

text \<open>
  Steps 1 to 3, lines 318-403: validation, the read of the analysis document, the read of
  the file document (outside any transaction), download and text extraction, the model
  call and the parsing step. \<open>Inl\<close> is a response already sent. Past the check of
  line 321 both identifiers are present, so \<open>the\<close> reads them.
\<close>

definition generateNewAnalysis_steps1to3 ::
    "gna_env \<Rightarrow> gna_request \<Rightarrow> world \<Rightarrow> (response + gna_pending) \<times> world" where
  "generateNewAnalysis_steps1to3 env req w =
     (if \<not> truthy_string (req_fileID req) \<or> \<not> truthy_string (req_analysisID req)
         \<or> \<not> truthy_number (req_userRating req) \<or> \<not> truthy_string (req_userComment req)
      then (Inl (400, ErrorMessage (ustr ''Missing required parameters.'')), w)
      else
        (let fileID = the (req_fileID req);
             analysisID = the (req_analysisID req);
             w1 = emit (StoreGet (ustr ''analysis'') analysisID) w in
         case ge_get_analysis env of
           Some e \<Rightarrow> (case gna_caught e w1 of (r, w') \<Rightarrow> (Inl r, w'))
         | None \<Rightarrow>
             (case analyses (db w1) analysisID of
                None \<Rightarrow> (Inl (404, ErrorMessage (ustr ''Analysis document not found.'')), w1)
              | Some analysisData \<Rightarrow>
                  (case ge_vertex env of
                     Some e \<Rightarrow> (case gna_caught e w1 of (r, w') \<Rightarrow> (Inl r, w'))
                   | None \<Rightarrow>
                       (let w2 = emit (StoreGet (ustr ''file'') fileID) w1 in
                        case ge_get_file env of
                          Some e \<Rightarrow> (case gna_caught e w2 of (r, w') \<Rightarrow> (Inl r, w'))
                        | None \<Rightarrow>
                            (case files (db w2) fileID of
                               None \<Rightarrow>
                                 (Inl (404, ErrorMessage (ustr ''File document not found.'')), w2)
                             | Some fileDoc \<Rightarrow>
                                 if \<not> truthy_string (file_path fileDoc)
                                 then (Inl (400, ErrorMessage
                                              (ustr ''File path not found in document.'')), w2)
                                 else
                                   (let w3 = emit (BlobDownload (the (file_path fileDoc))) w2 in
                                    case ge_download env of
                                      Some e \<Rightarrow>
                                        (case gna_caught e w3 of (r, w') \<Rightarrow> (Inl r, w'))
                                    | None \<Rightarrow>
                                        (let w4 = emit PdfParse w3 in
                                         case ge_pdfParse env of
                                           Some e \<Rightarrow>
                                             (case gna_caught e w4 of (r, w') \<Rightarrow> (Inl r, w'))
                                         | None \<Rightarrow>
                                             (let w5 = emit ModelCall w4 in
                                              case ge_generate env of
                                                Inl e \<Rightarrow>
                                                  (case gna_caught e w5 of
                                                     (r, w') \<Rightarrow> (Inl r, w'))
                                              | Inr resp \<Rightarrow>
                                                  (case parse (raw_text resp) of
                                                     Inl e \<Rightarrow>
                                                       (case gna_caught e w5 of
                                                          (r, w') \<Rightarrow> (Inl r, w'))
                                                   | Inr parsed \<Rightarrow>
                                                       (Inr \<lparr>p_fileID = fileID,
                                                             p_analysisID = analysisID,
                                                             p_fileDoc = fileDoc,
                                                             p_parsed = parsed\<rparr>,
                                                        w5)))))))))))"

text \<open>
  Steps 4 and 5, lines 405-448. The new index is computed from the snapshot of the file
  document taken in step 3 (lines 414-416), before \<^verbatim>\<open>runTransaction\<close> is called; the
  transaction callback only writes. \<^verbatim>\<open>transaction.update\<close> requires its document to
  exist, else the commit fails and nothing is written; the three writes are applied in
  order.
\<close>

definition generateNewAnalysis_step4 ::
    "gna_env \<Rightarrow> gna_pending \<Rightarrow> world \<Rightarrow> response \<times> world" where
  "generateNewAnalysis_step4 env p w =
     (let fileID = p_fileID p;
          analysisID = p_analysisID p;
          fileDoc = p_fileDoc p;
          numAnalysis0 = or_zero (numAnalysis fileDoc);
          newIndex = numAnalysis0 + 1;
          newAnalysisID = analysisID_of fileID newIndex;
          w1 = emit RunTransaction w in
      case ge_commit_fault env of
        Some e \<Rightarrow> gna_caught e w1
      | None \<Rightarrow>
          (case files (db w1) fileID of
             None \<Rightarrow> gna_caught DocumentMissing w1
           | Some current \<Rightarrow>
               (let files' = (files (db w1))
                      (fileID \<mapsto> current\<lparr>lastUpdate := Some (ge_now env),
                                          numAnalysis := Some newIndex,
                                          analysis := (analysis current)(newIndex \<mapsto> newAnalysisID)\<rparr>);
                    analyses' = (analyses (db w1))
                      (newAnalysisID \<mapsto> \<lparr>analysis_owner = file_owner fileDoc,
                                         analysis_fileID = fileID,
                                         content = p_parsed p,
                                         generateTime = ge_now env,
                                         model = GENERATION_MODEL,
                                         userRating = None,
                                         userComment = None,
                                         nextAnalysis = None\<rparr>) in
                case analyses' analysisID of
                  None \<Rightarrow> gna_caught DocumentMissing w1
                | Some previous \<Rightarrow>
                    ((200, NewAnalysisID newAnalysisID),
                     w1\<lparr>db := (db w1)
                          \<lparr>files := files',
                           analyses := analyses'
                             (analysisID \<mapsto> previous\<lparr>nextAnalysis := Some newAnalysisID\<rparr>)\<rparr>\<rparr>))))"

text \<open>The handler of lines 316-454.\<close>

definition generateNewAnalysis :: "gna_env \<Rightarrow> gna_request \<Rightarrow> world \<Rightarrow> response \<times> world" where
  "generateNewAnalysis env req w =
     (case generateNewAnalysis_steps1to3 env req w of
        (Inl r, w') \<Rightarrow> (r, w')
      | (Inr p, w') \<Rightarrow> generateNewAnalysis_step4 env p w')"

section \<open>\<^verbatim>\<open>generatePdf\<close>\<close>

text \<open>The request body, destructured at lines 464-468, with the field types the handler
  expects.\<close>

record education =
  schoolName :: "ustring option"
  edu_duration :: "ustring option"
  edu_descriptions :: "ustring list option"

record work =
  company :: "ustring option"
  position :: "ustring option"
  work_duration :: "ustring option"
  work_descriptions :: "ustring list option"

record project =
  project_name :: "ustring option"
  project_duration :: "ustring option"
  project_descriptions :: "ustring list option"

record pdf_request =
  r_name :: "ustring option"
  r_phone :: "ustring option"
  r_email :: "ustring option"
  r_summary :: "ustring option"
  r_education :: "education list option"
  r_workExperience :: "work list option"
  r_projectExperience :: "project list option"
  r_skills :: "ustring list option"
  r_publications :: "ustring list option"
  r_title :: "ustring option"
  r_pageSize :: "ustring option"
  r_margins :: "ustring option"
  r_fontFamily :: "ustring option"
  r_lineHeight :: "rat option"
  r_headerHtml :: "ustring option"
  r_footerHtml :: "ustring option"
  r_pageNumbers :: "bool option"
  r_userId :: "ustring option"
  r_resumeId :: "ustring option"
  r_versionId :: "ustring option"

subsection \<open>Step 2: the resume text\<close>

text \<open>\<^verbatim>\<open>x || d\<close> on a string, \<^verbatim>\<open>if (x) ...\<close> on a string, and
  \<^verbatim>\<open>if (xs && xs.length > 0) ...\<close> on an array.\<close>

definition or_else :: "ustring option \<Rightarrow> ustring \<Rightarrow> ustring" where
  "or_else x d = (case x of None \<Rightarrow> d | Some s \<Rightarrow> if s = [] then d else s)"

definition when_string :: "ustring option \<Rightarrow> (ustring \<Rightarrow> ustring) \<Rightarrow> ustring" where
  "when_string x f = (case x of None \<Rightarrow> [] | Some s \<Rightarrow> if s = [] then [] else f s)"

definition when_list :: "'a list option \<Rightarrow> ('a list \<Rightarrow> ustring) \<Rightarrow> ustring" where
  "when_list x f = (case x of None \<Rightarrow> [] | Some xs \<Rightarrow> if xs = [] then [] else f xs)"

definition nl :: ustring where
  "nl = [0x0A]"

text \<open>\<^verbatim>\<open>`\<bullet> ${desc}\n`\<close>, the bullet being the code unit U+2022.\<close>

definition bullet_line :: "ustring \<Rightarrow> ustring" where
  "bullet_line desc = [0x2022, 0x20] @ desc @ nl"

definition bullet_lines :: "ustring list option \<Rightarrow> ustring" where
  "bullet_lines descriptions = when_list descriptions (\<lambda>ds. concat (map bullet_line ds))"

fun join :: "ustring \<Rightarrow> ustring list \<Rightarrow> ustring" where
  "join sep [] = []"
| "join sep [x] = x"
| "join sep (x # y # ys) = x @ sep @ join sep (y # ys)"

definition format_education :: "education \<Rightarrow> ustring" where
  "format_education edu =
     or_else (schoolName edu) [] @ ustr '' - '' @ or_else (edu_duration edu) [] @ nl
     @ bullet_lines (edu_descriptions edu) @ nl"

definition format_work :: "work \<Rightarrow> ustring" where
  "format_work wk =
     or_else (company wk) [] @ ustr '' - '' @ or_else (position wk) [] @ ustr '' (''
     @ or_else (work_duration wk) [] @ ustr '')'' @ nl
     @ bullet_lines (work_descriptions wk) @ nl"

definition format_project :: "project \<Rightarrow> ustring" where
  "format_project pr =
     or_else (project_name pr) [] @ ustr '' - '' @ or_else (project_duration pr) [] @ nl
     @ bullet_lines (project_descriptions pr) @ nl"

text \<open>Lines 476-524.\<close>

definition formatResumeText :: "pdf_request \<Rightarrow> ustring" where
  "formatResumeText req =
     when_string (r_name req) (\<lambda>name. name @ nl)
     @ when_string (r_phone req) (\<lambda>phone. ustr ''Phone: '' @ phone @ nl)
     @ when_string (r_email req) (\<lambda>email. ustr ''Email: '' @ email @ nl @ nl)
     @ when_string (r_summary req) (\<lambda>summary. ustr ''SUMMARY'' @ nl @ summary @ nl @ nl)
     @ when_list (r_education req) (\<lambda>es. ustr ''EDUCATION'' @ nl @ concat (map format_education es))
     @ when_list (r_workExperience req)
         (\<lambda>ws. ustr ''WORK EXPERIENCE'' @ nl @ concat (map format_work ws))
     @ when_list (r_projectExperience req)
         (\<lambda>ps. ustr ''PROJECTS'' @ nl @ concat (map format_project ps))
     @ when_list (r_skills req) (\<lambda>ss. ustr ''SKILLS'' @ nl @ join (ustr '', '') ss @ nl @ nl)
     @ when_list (r_publications req)
         (\<lambda>ps. ustr ''PUBLICATIONS'' @ nl @ concat (map bullet_line ps))"

subsection \<open>Steps 3 to 6: model call, file name, payload, rendering call\<close>

text \<open>
  Reading a property of a parsed JSON value, for the property names the source reads
  (\<^verbatim>\<open>enhanced_text\<close>, \<^verbatim>\<open>pdf_url\<close>, \<^verbatim>\<open>gcs_uri\<close>, \<^verbatim>\<open>page_count\<close>, \<^verbatim>\<open>bytes\<close>,
  \<^verbatim>\<open>title\<close>, \<^verbatim>\<open>rendered_at\<close>): on \<^verbatim>\<open>null\<close> the read throws a \<open>TypeError\<close>, which the
  handler's steps check where the first read happens; on an object it is the property's
  value, and on any other value it is \<^verbatim>\<open>undefined\<close>.
\<close>

fun field :: "json \<Rightarrow> ustring \<Rightarrow> json option" where
  "field (JObj kvs) k = map_of kvs k"
| "field _ k = None"

fun truthy :: "json \<Rightarrow> bool" where
  "truthy JNull = False"
| "truthy (JBool b) = b"
| "truthy (JNum n) = (n \<noteq> 0)"
| "truthy (JStr s) = (s \<noteq> [])"
| "truthy (JArr xs) = True"
| "truthy (JObj kvs) = True"

text \<open>Lines 592-596: \<^verbatim>\<open>.replace(/:/g, "-").replace(/\./g, "-").replace("T", "-").replace("Z", "")\<close>
  on the ISO text of the current time; a string pattern replaces the first occurrence
  only.\<close>

definition replace_all :: "16 word \<Rightarrow> ustring \<Rightarrow> ustring \<Rightarrow> ustring" where
  "replace_all c r s = concat (map (\<lambda>x. if x = c then r else [x]) s)"

fun replace_first :: "16 word \<Rightarrow> ustring \<Rightarrow> ustring \<Rightarrow> ustring" where
  "replace_first c r [] = []"
| "replace_first c r (x # xs) = (if x = c then r @ xs else x # replace_first c r xs)"

definition timestamp_of :: "ustring \<Rightarrow> ustring" where
  "timestamp_of isoText =
     replace_first 0x5A []
       (replace_first 0x54 (ustr ''-'')
          (replace_all 0x2E (ustr ''-'') (replace_all 0x3A (ustr ''-'') isoText)))"

text \<open>The answer of the rendering service to \<^verbatim>\<open>fetch\<close>: \<^verbatim>\<open>ok\<close> is true for a status
  200-299; \<^verbatim>\<open>text()\<close> and \<^verbatim>\<open>json()\<close> read the body and may throw.\<close>

record render_response =
  resp_ok :: bool
  resp_text :: "exn + ustring"
  resp_json :: "exn + json"

text \<open>
  What the outside answers during one request: the creation of the model client, the
  model call, the ISO text of the current time, the rendering call, the fetch of the
  rendered file, the save into the blob store, the identifier the store generates for the
  new file document, the metadata transaction, the server timestamp, and the answers to
  the nested \<^verbatim>\<open>analyzeResumeText\<close> call.
\<close>

record pdf_env =
  pe_vertex :: "exn option"
  pe_generate :: "exn + ustring option"
  pe_iso :: ustring
  pe_render :: "exn + render_response"
  pe_artifact :: "exn option"
  pe_save :: "exn option"
  pe_new_id :: ustring
  pe_commit_fault :: "exn option"
  pe_now :: nat
  pe_analyze :: analyze_env

text \<open>The \<^verbatim>\<open>catch\<close> of lines 781-784.\<close>

definition pdf_caught :: "exn \<Rightarrow> world \<Rightarrow> (response + 'a) \<times> world" where
  "pdf_caught error w = (Inl (500, ErrorOf error), emit (Log (ErrorGeneratePdf error)) w)"

text \<open>What the later steps use of steps 1 to 6.\<close>

record rendered =
  rd_userId :: ustring
  rd_resumeText :: ustring
  rd_pdfTitle :: ustring
  rd_filePath :: ustring
  rd_payload :: mcp_payload
  rd_pdfData :: json

text \<open>
  Steps 1 to 6, lines 463-642. A rendering response that is not \<^verbatim>\<open>ok\<close> ends the
  request at lines 635-640 with status 500 and the upstream body as \<^verbatim>\<open>detail\<close>.
  Past the check of line 470 the user identifier is present, so \<open>the\<close> reads it;
  \<^verbatim>\<open>aiResponse.enhanced_text\<close> is the one read of a property of \<^verbatim>\<open>aiResponse\<close>.
\<close>

definition generatePdf_steps1to6 ::
    "pdf_env \<Rightarrow> pdf_request \<Rightarrow> world \<Rightarrow> (response + rendered) \<times> world" where
  "generatePdf_steps1to6 env req w =
     (if \<not> truthy_string (r_userId req)
         \<or> (\<not> truthy_string (r_name req) \<and> \<not> truthy_string (r_summary req))
      then (Inl (400, ErrorMessage
                  (ustr ''Missing required parameters: userId and resume content (name or summary).'')),
            w)
      else
        (let userId = the (r_userId req);
             resumeText = formatResumeText req in
         case pe_vertex env of
           Some e \<Rightarrow> pdf_caught e w
         | None \<Rightarrow>
             (let w1 = emit ModelCall w in
              case pe_generate env of
                Inl e \<Rightarrow> pdf_caught e w1
              | Inr reply \<Rightarrow>
                  (case parse (raw_text reply) of
                     Inl e \<Rightarrow> pdf_caught e w1
                   | Inr aiResponse \<Rightarrow>
                       (let timestamp = timestamp_of (pe_iso env);
                            pdfTitle = or_else (r_title req) (ustr ''Resume'');
                            fileName = pdfTitle @ ustr ''-'' @ timestamp @ ustr ''.pdf'';
                            filePath = userId @ ustr ''/'' @ fileName in
                        if aiResponse = JNull then pdf_caught TypeError w1
                        else
                          (let mcpPayload =
                                 \<lparr>payload_text =
                                    (case field aiResponse (ustr ''enhanced_text'') of
                                       None \<Rightarrow> JStr resumeText
                                     | Some t \<Rightarrow> if truthy t then t else JStr resumeText),
                                  payload_title = pdfTitle,
                                  payload_pageSize = or_else (r_pageSize req) (ustr ''Letter''),
                                  payload_margins = or_else (r_margins req) (ustr ''36px''),
                                  payload_fontFamily =
                                    or_else (r_fontFamily req)
                                      (ustr ''Inter, system-ui, -apple-system, Arial, sans-serif''),
                                  payload_lineHeight =
                                    (case r_lineHeight req of
                                       None \<Rightarrow> 3 / 2
                                     | Some h \<Rightarrow> if h = 0 then 3 / 2 else h),
                                  payload_headerHtml = or_else (r_headerHtml req) [],
                                  payload_footerHtml = or_else (r_footerHtml req) [],
                                  payload_pageNumbers = (r_pageNumbers req \<noteq> Some False)\<rparr>;
                               w2 = emit RenderCall w1 in
                           case pe_render env of
                             Inl e \<Rightarrow> pdf_caught e w2
                           | Inr pdfResponse \<Rightarrow>
                               if \<not> resp_ok pdfResponse then
                                 (case resp_text pdfResponse of
                                    Inl e \<Rightarrow> pdf_caught e w2
                                  | Inr errorText \<Rightarrow>
                                      (Inl (500, PdfGenerationFailed errorText),
                                       emit (Log (ErrorPdfGenerationFailed errorText)) w2))
                               else
                                 (case resp_json pdfResponse of
                                    Inl e \<Rightarrow> pdf_caught e w2
                                  | Inr pdfData \<Rightarrow>
                                      (Inr \<lparr>rd_userId = userId,
                                            rd_resumeText = resumeText,
                                            rd_pdfTitle = pdfTitle,
                                            rd_filePath = filePath,
                                            rd_payload = mcpPayload,
                                            rd_pdfData = pdfData\<rparr>,
                                       w2))))))))"

subsection \<open>Step 7 and the metadata transaction\<close>

text \<open>
  The transaction of lines 711-757: the file document is set under the generated
  identifier (with \<^verbatim>\<open>analysis: []\<close>, an index without entries), the identifier is
  added to the user's \<^verbatim>\<open>files\<close> (\<^verbatim>\<open>arrayUnion\<close>; an update, so the user document
  must exist), and with both \<^verbatim>\<open>resumeId\<close> and \<^verbatim>\<open>versionId\<close> the version document
  is set with merge. All of it commits or none.
\<close>

definition metadata_transaction ::
    "pdf_env \<Rightarrow> pdf_request \<Rightarrow> rendered \<Rightarrow> world \<Rightarrow> (exn + ustring) \<times> world" where
  "metadata_transaction env req rd w =
     (let w1 = emit RunTransaction w;
          fileID = pe_new_id env;
          userId = rd_userId rd;
          pdfData = rd_pdfData rd in
      case pe_commit_fault env of
        Some e \<Rightarrow> (Inl e, w1)
      | None \<Rightarrow>
          (case users (db w1) userId of
             None \<Rightarrow> (Inl DocumentMissing, w1)
           | Some user \<Rightarrow>
               (let files' = (files (db w1))
                      (fileID \<mapsto> \<lparr>file_owner = Some userId,
                                  file_path = Some (rd_filePath rd),
                                  filename = Some (rd_pdfTitle rd),
                                  file_type = Some (ustr ''Generated''),
                                  uploadDate = Some (pe_now env),
                                  lastUpdate = Some (pe_now env),
                                  numAnalysis = Some 0,
                                  analysis = Map.empty\<rparr>);
                    users' = (users (db w1))
                      (userId \<mapsto> user\<lparr>user_files :=
                                         (if fileID \<in> set (user_files user) then user_files user
                                          else user_files user @ [fileID])\<rparr>);
                    versions' =
                      (if truthy_string (r_resumeId req) \<and> truthy_string (r_versionId req)
                       then (versions (db w1))
                              ((userId, the (r_resumeId req), the (r_versionId req)) \<mapsto>
                                 \<lparr>version_pdf_url = field pdfData (ustr ''pdf_url''),
                                  version_gcs_uri = field pdfData (ustr ''gcs_uri''),
                                  firebase_path = rd_filePath rd,
                                  version_fileID = fileID,
                                  generated_at = pe_now env,
                                  version_page_count =
                                    (case field pdfData (ustr ''page_count'') of
                                       None \<Rightarrow> JNull
                                     | Some v \<Rightarrow> if truthy v then v else JNull),
                                  version_bytes =
                                    (case field pdfData (ustr ''bytes'') of
                                       None \<Rightarrow> JNull
                                     | Some v \<Rightarrow> if truthy v then v else JNull),
                                  version_title = field pdfData (ustr ''title''),
                                  generation_params = rd_payload rd\<rparr>)
                       else versions (db w1)) in
                (Inr fileID,
                 w1\<lparr>db := (db w1)\<lparr>files := files', users := users', versions := versions'\<rparr>\<rparr>))))"

text \<open>
  Step 7, lines 644-661, then the transaction. \<^verbatim>\<open>pdfData.pdf_url\<close> is the first read of
  a property of \<^verbatim>\<open>pdfData\<close>. \<open>Inr\<close> is the identifier of the committed file document.
\<close>

definition generatePdf_step7to8 ::
    "pdf_env \<Rightarrow> pdf_request \<Rightarrow> rendered \<Rightarrow> world \<Rightarrow> (response + ustring) \<times> world" where
  "generatePdf_step7to8 env req rd w =
     (if rd_pdfData rd = JNull then pdf_caught TypeError w
      else
        (let w1 = emit ArtifactFetch w in
         case pe_artifact env of
           Some e \<Rightarrow> pdf_caught e w1
         | None \<Rightarrow>
             (let w2 = emit (BlobSave (rd_filePath rd)) w1 in
              case pe_save env of
                Some e \<Rightarrow> pdf_caught e w2
              | None \<Rightarrow>
                  (let w3 = emit (Log (InfoPdfSaved (rd_filePath rd))) w2 in
                   case metadata_transaction env req rd w3 of
                     (Inl e, w4) \<Rightarrow> pdf_caught e w4
                   | (Inr fileID, w4) \<Rightarrow> (Inr fileID, w4)))))"

text \<open>Every step through the metadata commit.\<close>

definition generatePdf_through_commit ::
    "pdf_env \<Rightarrow> pdf_request \<Rightarrow> world \<Rightarrow> (response + rendered \<times> ustring) \<times> world" where
  "generatePdf_through_commit env req w =
     (case generatePdf_steps1to6 env req w of
        (Inl r, w1) \<Rightarrow> (Inl r, w1)
      | (Inr rd, w1) \<Rightarrow>
          (case generatePdf_step7to8 env req rd w1 of
             (Inl r, w2) \<Rightarrow> (Inl r, w2)
           | (Inr fileID, w2) \<Rightarrow> (Inr (rd, fileID), w2)))"

text \<open>Step 9, lines 768-779.\<close>

definition pdf_success_response :: "rendered \<Rightarrow> ustring \<Rightarrow> response" where
  "pdf_success_response rd fileID =
     (200, PdfSuccess
        \<lparr>success_pdf_url = field (rd_pdfData rd) (ustr ''pdf_url''),
         success_firebase_path = rd_filePath rd,
         success_gcs_uri = field (rd_pdfData rd) (ustr ''gcs_uri''),
         success_page_count = field (rd_pdfData rd) (ustr ''page_count''),
         success_bytes = field (rd_pdfData rd) (ustr ''bytes''),
         success_title = field (rd_pdfData rd) (ustr ''title''),
         success_rendered_at = field (rd_pdfData rd) (ustr ''rendered_at''),
         success_fileID = fileID\<rparr>)"

text \<open>
  Lines 759-779: after the commit the handler calls \<^verbatim>\<open>analyzeResumeText\<close> inside its own
  \<^verbatim>\<open>try\<close>; a failure is logged and the request goes on to the success response of
  step 9.
\<close>

definition generatePdf_analysis ::
    "pdf_env \<Rightarrow> rendered \<Rightarrow> ustring \<Rightarrow> world \<Rightarrow> response \<times> world" where
  "generatePdf_analysis env rd fileID w =
     (case analyzeResumeText (pe_analyze env) (rd_resumeText rd) fileID (rd_filePath rd) w of
        (Inl analysisError, w') \<Rightarrow>
          (pdf_success_response rd fileID, emit (Log (ErrorFailedToAnalyze analysisError)) w')
      | (Inr _, w') \<Rightarrow>
          (pdf_success_response rd fileID, emit (Log (InfoAnalysisCompleted fileID)) w'))"

text \<open>The handler of lines 461-785.\<close>

definition generatePdf :: "pdf_env \<Rightarrow> pdf_request \<Rightarrow> world \<Rightarrow> response \<times> world" where
  "generatePdf env req w =
     (case generatePdf_through_commit env req w of
        (Inl r, w1) \<Rightarrow> (r, w1)
      | (Inr (rd, fileID), w1) \<Rightarrow> generatePdf_analysis env rd fileID w1)"

section \<open>Concurrent invocations\<close>

text \<open>
  Each invocation of a handler runs on its own and meets the others in the store only. An
  invocation of \<^verbatim>\<open>generateNewAnalysis\<close> touches the store twice, at its reads (steps 1 to
  3) and at its transaction (step 4), and other invocations may run in between. An
  invocation of \<^verbatim>\<open>analyzeResumeText\<close> touches the store in its one transaction, which
  reads and writes atomically. An invocation of \<^verbatim>\<open>generatePdf\<close> touches it in its
  metadata transaction and then in the transaction of the analysis it calls. A schedule
  lists which invocation moves next. (The source yields at every \<^verbatim>\<open>await\<close>; each
  schedule here is one of its interleavings.)
\<close>

datatype task =
    Regenerate gna_env gna_request
  | Regenerate_pending gna_env gna_pending
  | Analyze analyze_env ustring ustring ustring
  | Generate pdf_env pdf_request
  | Generate_committed pdf_env rendered ustring
  | Responded response
  | Returned "exn + json"

fun advance :: "task \<Rightarrow> world \<Rightarrow> task \<times> world" where
  "advance (Regenerate env req) w =
     (case generateNewAnalysis_steps1to3 env req w of
        (Inl r, w') \<Rightarrow> (Responded r, w')
      | (Inr p, w') \<Rightarrow> (Regenerate_pending env p, w'))"
| "advance (Regenerate_pending env p) w =
     (case generateNewAnalysis_step4 env p w of (r, w') \<Rightarrow> (Responded r, w'))"
| "advance (Analyze env text fileID filePath) w =
     (case analyzeResumeText env text fileID filePath w of (r, w') \<Rightarrow> (Returned r, w'))"
| "advance (Generate env req) w =
     (case generatePdf_through_commit env req w of
        (Inl r, w') \<Rightarrow> (Responded r, w')
      | (Inr (rd, fileID), w') \<Rightarrow> (Generate_committed env rd fileID, w'))"
| "advance (Generate_committed env rd fileID) w =
     (case generatePdf_analysis env rd fileID w of (r, w') \<Rightarrow> (Responded r, w'))"
| "advance (Responded r) w = (Responded r, w)"
| "advance (Returned r) w = (Returned r, w)"

fun run_schedule :: "nat list \<Rightarrow> task list \<Rightarrow> world \<Rightarrow> task list \<times> world" where
  "run_schedule [] ts w = (ts, w)"
| "run_schedule (i # sched) ts w =
     (if i < length ts
      then (case advance (ts ! i) w of (t', w') \<Rightarrow> run_schedule sched (ts[i := t']) w')
      else run_schedule sched ts w)"

section \<open>Sample stores, requests and answers of the outside\<close>

text \<open>
  A store with one user \<open>u1\<close> and one uploaded file \<open>f1\<close>. In \<open>chain1\<close> the file has
  one analysis \<open>f1-1\<close>, the head of its chain. In \<open>chain2\<close> it has two, \<open>f1-1\<close> linked
  to the head \<open>f1-2\<close>.
\<close>

definition first_analysis :: analysis_doc where
  "first_analysis =
     \<lparr>analysis_owner = Some (ustr ''u1''), analysis_fileID = ustr ''f1'', content = JObj [],
      generateTime = 1, model = GENERATION_MODEL, userRating = None, userComment = None,
      nextAnalysis = None\<rparr>"

definition uploaded_file :: file_doc where
  "uploaded_file =
     \<lparr>file_owner = Some (ustr ''u1''), file_path = Some (ustr ''u1/cv.pdf''),
      filename = Some (ustr ''cv''), file_type = Some (ustr ''Uploaded''), uploadDate = Some 0,
      lastUpdate = Some 1, numAnalysis = Some 1, analysis = [1 \<mapsto> ustr ''f1-1'']\<rparr>"

definition chain1 :: world where
  "chain1 =
     \<lparr>db = \<lparr>files = [ustr ''f1'' \<mapsto> uploaded_file],
            analyses = [ustr ''f1-1'' \<mapsto> first_analysis],
            users = [ustr ''u1'' \<mapsto> \<lparr>user_files = [ustr ''f1'']\<rparr>],
            versions = Map.empty\<rparr>,
      trace = []\<rparr>"

definition chain2 :: world where
  "chain2 =
     \<lparr>db = \<lparr>files = [ustr ''f1'' \<mapsto>
                       uploaded_file\<lparr>lastUpdate := Some 2, numAnalysis := Some 2,
                                     analysis := [1 \<mapsto> ustr ''f1-1'', 2 \<mapsto> ustr ''f1-2'']\<rparr>],
            analyses = [ustr ''f1-1'' \<mapsto> first_analysis\<lparr>nextAnalysis := Some (ustr ''f1-2'')\<rparr>,
                        ustr ''f1-2'' \<mapsto> first_analysis\<lparr>generateTime := 2\<rparr>],
            users = [ustr ''u1'' \<mapsto> \<lparr>user_files = [ustr ''f1'']\<rparr>],
            versions = Map.empty\<rparr>,
      trace = []\<rparr>"

text \<open>A regeneration request naming \<open>f1-1\<close> as the previous analysis, and an outside
  where every call succeeds and the model replies \<^verbatim>\<open>{}\<close>.\<close>

definition regenerate_request :: gna_request where
  "regenerate_request =
     \<lparr>req_fileID = Some (ustr ''f1''), req_analysisID = Some (ustr ''f1-1''),
      req_userRating = Some 4, req_userComment = Some (ustr ''more detail'')\<rparr>"

definition no_faults :: gna_env where
  "no_faults =
     \<lparr>ge_get_analysis = None, ge_vertex = None, ge_get_file = None, ge_download = None,
      ge_pdfParse = None, ge_generate = Inr (Some (ustr ''{}'')), ge_commit_fault = None,
      ge_now = 10\<rparr>"

definition analysis_succeeds :: analyze_env where
  "analysis_succeeds =
     \<lparr>ae_vertex = None, ae_generate = Inr (Some (ustr ''{}'')), ae_commit_fault = None,
      ae_now = 11\<rparr>"

definition analysis_model_down :: analyze_env where
  "analysis_model_down =
     \<lparr>ae_vertex = None, ae_generate = Inl (Fault (ustr ''unavailable'')), ae_commit_fault = None,
      ae_now = 21\<rparr>"

text \<open>A request to generate a resume for \<open>u1\<close>, with an outside where rendering succeeds
  and the follow-up analysis finds the model unavailable, and one where the rendering
  service answers with a status outside 200-299.\<close>

definition pdf_request_ann :: pdf_request where
  "pdf_request_ann =
     \<lparr>r_name = Some (ustr ''Ann''), r_phone = None, r_email = None, r_summary = None,
      r_education = None, r_workExperience = None, r_projectExperience = None, r_skills = None,
      r_publications = None, r_title = None, r_pageSize = None, r_margins = None,
      r_fontFamily = None, r_lineHeight = None, r_headerHtml = None, r_footerHtml = None,
      r_pageNumbers = None, r_userId = Some (ustr ''u1''), r_resumeId = None, r_versionId = None\<rparr>"

definition rendering_ok :: render_response where
  "rendering_ok =
     \<lparr>resp_ok = True, resp_text = Inr [],
      resp_json = Inr (JObj [(ustr ''pdf_url'', JStr (ustr ''https://render/1.pdf''))])\<rparr>"

definition rendering_rejected :: render_response where
  "rendering_rejected =
     \<lparr>resp_ok = False, resp_text = Inr (ustr ''bad margins''), resp_json = Inl SyntaxError\<rparr>"

definition pdf_env_analysis_down :: pdf_env where
  "pdf_env_analysis_down =
     \<lparr>pe_vertex = None, pe_generate = Inr (Some (ustr ''{}'')),
      pe_iso = ustr ''2024-01-02T03:04:05.678Z'', pe_render = Inr rendering_ok,
      pe_artifact = None, pe_save = None, pe_new_id = ustr ''g1'', pe_commit_fault = None,
      pe_now = 20, pe_analyze = analysis_model_down\<rparr>"

definition pdf_env_render_rejected :: pdf_env where
  "pdf_env_render_rejected = pdf_env_analysis_down\<lparr>pe_render := Inr rendering_rejected\<rparr>"



definition rendered_ann :: rendered where
  "rendered_ann =
     \<lparr>rd_userId = ustr ''u1'',
      rd_resumeText = ustr ''Ann'' @ nl,
      rd_pdfTitle = ustr ''Resume'',
      rd_filePath = ustr ''u1/Resume-2024-01-02-03-04-05-678.pdf'',
      rd_payload =
        \<lparr>payload_text = JStr (ustr ''Ann'' @ nl), payload_title = ustr ''Resume'',
         payload_pageSize = ustr ''Letter'', payload_margins = ustr ''36px'',
         payload_fontFamily = ustr ''Inter, system-ui, -apple-system, Arial, sans-serif'',
         payload_lineHeight = 3 / 2, payload_headerHtml = [], payload_footerHtml = [],
         payload_pageNumbers = True\<rparr>,
      rd_pdfData = JObj [(ustr ''pdf_url'', JStr (ustr ''https://render/1.pdf''))]\<rparr>"

section \<open>The identifiers a step allocates and the records it touches\<close>

text \<open>
  \<^verbatim>\<open>Number.isSafeInteger\<close>: on a safe integer the source's \<^verbatim>\<open>numAnalysis + 1\<close> is the
  exact successor and its template literal the plain decimal text.
\<close>

definition safe_integer :: "int \<Rightarrow> bool" where
  "safe_integer n = (- (2 ^ 53) < n \<and> n < 2 ^ 53)"


definition next_analysisID :: "store \<Rightarrow> ustring \<Rightarrow> ustring" where
  "next_analysisID st fileID =
     analysisID_of fileID (or_zero (Option.bind (files st fileID) numAnalysis) + 1)"






section \<open>Auxiliary facts\<close>

subsection \<open>Evaluation of the samples\<close>

lemma or_zero_simps [simp]: "or_zero None = 0" "or_zero (Some n) = n"
  by (simp_all add: or_zero_def)

lemma sample_ids:
  "analysisID_of (ustr ''f1'') 2 = ustr ''f1-2''"
  "analysisID_of (ustr ''f1'') 3 = ustr ''f1-3''"
  "analysisID_of (ustr ''g1'') 1 = ustr ''g1-1''"
  by code_simp+

lemma sample_distinct:
  "ustr ''f1-1'' \<noteq> ustr ''f1-2''" "ustr ''f1-1'' \<noteq> ustr ''f1-3''"
  "ustr ''f1-2'' \<noteq> ustr ''f1-3''" "ustr ''f1-2'' \<noteq> ustr ''f1-1''"
  "ustr ''f1-3'' \<noteq> ustr ''f1-1''" "ustr ''f1-3'' \<noteq> ustr ''f1-2''"
  "ustr ''f1'' \<noteq> ustr ''f9''" "ustr ''f9'' \<noteq> ustr ''f1''"
  "ustr ''g1'' \<noteq> ustr ''f1''" "ustr ''f1'' \<noteq> ustr ''g1''"
  "ustr ''g1-1'' \<noteq> ustr ''f1-1''" "ustr ''f1-1'' \<noteq> ustr ''g1-1''"
  "ustr ''f1'' \<noteq> []" "ustr ''f9'' \<noteq> []" "ustr ''g1'' \<noteq> []" "ustr ''u1'' \<noteq> []"
  "ustr ''Ann'' \<noteq> []" "ustr ''f1-1'' \<noteq> []" "ustr ''f1-2'' \<noteq> []"
  "ustr ''more detail'' \<noteq> []"
  "ustr ''u1/cv.pdf'' \<noteq> []"
  by code_simp+

lemma parse_empty_object: "parse (raw_text (Some (ustr ''{}''))) = Inr (JObj [])"
  by code_simp

lemma short_text:
  "length (trim (ustr ''cv'')) < 100"
  "length (trim (formatResumeText pdf_request_ann)) < 100"
  by code_simp+

lemma sample_paths:
  "ustr ''u1'' @ ustr ''/'' @ ustr ''Resume'' @ ustr ''-''
     @ timestamp_of (ustr ''2024-01-02T03:04:05.678Z'') @ ustr ''.pdf''
   = ustr ''u1/Resume-2024-01-02-03-04-05-678.pdf''"
  "formatResumeText pdf_request_ann = ustr ''Ann'' @ nl"
  by code_simp+

lemmas gna_defs = generateNewAnalysis_def generateNewAnalysis_steps1to3_def
  generateNewAnalysis_step4_def gna_caught_def emit_def truthy_string_def truthy_number_def Let_def

lemmas analyze_defs = analyzeResumeText_def analyzeResumeText_body_def analyze_transaction_def
  emit_def Let_def

lemmas pdf_defs = generatePdf_def generatePdf_analysis_def generatePdf_through_commit_def
  generatePdf_steps1to6_def
  generatePdf_step7to8_def metadata_transaction_def pdf_caught_def pdf_success_response_def
  emit_def Let_def truthy_string_def or_else_def

lemmas sample_defs = chain1_def chain2_def first_analysis_def uploaded_file_def
  regenerate_request_def no_faults_def analysis_succeeds_def analysis_model_down_def

lemmas pdf_sample_defs = pdf_env_analysis_down_def pdf_env_render_rejected_def pdf_request_ann_def
  rendering_ok_def rendering_rejected_def analysis_model_down_def

lemma through_commit_ann:
  "fst (generatePdf_through_commit pdf_env_analysis_down pdf_request_ann chain1)
     = Inr (rendered_ann, ustr ''g1'')"
  using sample_paths
  by (simp add: pdf_defs pdf_sample_defs chain1_def parse_empty_object sample_distinct
      rendered_ann_def)

subsection \<open>The parsing step returns\<close>

lemma parse_returns: "\<exists>v. parse raw = Inr v"
  by (cases "JSON_parse raw") (simp_all add: parse_def try_catch_def)

subsection \<open>\<^verbatim>\<open>analyzeResumeText\<close>: failures write nothing, successes touch one identifier\<close>

lemma analyze_transaction_failure_db:
  "analyze_transaction env fileID parsed w = (Inl e, w') \<Longrightarrow> db w' = db w"
  by (auto simp: analyze_transaction_def emit_def Let_def split: option.splits)

lemma analyzeResumeText_body_failure_db:
  assumes "analyzeResumeText_body env text fileID filePath w = (Inl e, w')"
  shows "db w' = db w"
  using assms
  by (auto simp: analyzeResumeText_body_def emit_def Let_def
      split: option.splits sum.splits prod.splits if_splits
      dest!: analyze_transaction_failure_db)

lemma analyzeResumeText_failure_db:
  assumes "fst (analyzeResumeText env text fileID filePath w) = Inl e"
  shows "db (snd (analyzeResumeText env text fileID filePath w)) = db w"
  using assms
  by (auto simp: analyzeResumeText_def emit_def split: prod.splits sum.splits
      dest!: analyzeResumeText_body_failure_db)



subsection \<open>\<^verbatim>\<open>generateNewAnalysis\<close>: what its two phases read and write\<close>

lemma steps1to3_db: "db (snd (generateNewAnalysis_steps1to3 env req w)) = db w"
  by (simp add: generateNewAnalysis_steps1to3_def gna_caught_def emit_def Let_def
      split: option.splits sum.splits)

lemma steps1to3_pending:
  assumes "generateNewAnalysis_steps1to3 env req w = (Inr p, w')"
  shows "req_fileID req = Some (p_fileID p) \<and> req_analysisID req = Some (p_analysisID p)
         \<and> files (db w) (p_fileID p) = Some (p_fileDoc p)"
  using assms
  by (auto simp: generateNewAnalysis_steps1to3_def gna_caught_def emit_def Let_def truthy_string_def
      split: option.splits sum.splits if_splits)

lemma step4_frame:
  assumes "a \<noteq> p_analysisID p"
      and "a \<noteq> analysisID_of (p_fileID p) (or_zero (numAnalysis (p_fileDoc p)) + 1)"
  shows "analyses (db (snd (generateNewAnalysis_step4 env p w))) a = analyses (db w) a"
  using assms
  by (simp add: generateNewAnalysis_step4_def gna_caught_def emit_def Let_def
      split: option.splits)

lemma generateNewAnalysis_frame:
  assumes "req_analysisID req \<noteq> Some a"
      and "\<forall>fileID\<in>set_option (req_fileID req). a \<noteq> next_analysisID (db w) fileID"
  shows "analyses (db (snd (generateNewAnalysis env req w))) a = analyses (db w) a"
proof -
  obtain r1 w1 where s1: "generateNewAnalysis_steps1to3 env req w = (r1, w1)"
    by (cases "generateNewAnalysis_steps1to3 env req w")
  have w1: "db w1 = db w"
    using steps1to3_db [of env req w] s1 by simp
  show ?thesis
  proof (cases r1)
    case (Inl r)
    with s1 w1 show ?thesis by (simp add: generateNewAnalysis_def)
  next
    case (Inr p)
    from s1 Inr have s1': "generateNewAnalysis_steps1to3 env req w = (Inr p, w1)" by simp
    from steps1to3_pending [OF s1'] assms
    have ne: "a \<noteq> p_analysisID p"
      "a \<noteq> analysisID_of (p_fileID p) (or_zero (numAnalysis (p_fileDoc p)) + 1)"
      by (auto simp: next_analysisID_def)
    from step4_frame [OF ne, of env w1] s1 Inr w1 show ?thesis
      by (simp add: generateNewAnalysis_def)
  qed
qed

subsection \<open>A request scheduled alone, and the transaction that reads inside\<close>

lemma run_schedule_alone:
  "run_schedule [0, 0] [Regenerate env req] w
     = ([Responded (fst (generateNewAnalysis env req w))], snd (generateNewAnalysis env req w))"
  by (simp add: generateNewAnalysis_def split: prod.splits sum.splits)

lemma analyze_transaction_reads_inside:
  assumes "files (db w) fileID = Some d" and "ae_commit_fault env = None"
  shows "map_option numAnalysis (files (db (snd (analyze_transaction env fileID parsed w))) fileID)
           = Some (Some (or_zero (numAnalysis d) + 1))
         \<and> (analyses (db (snd (analyze_transaction env fileID parsed w))))
              (next_analysisID (db w) fileID) \<noteq> None"
  using assms
  by (simp add: analyze_transaction_def emit_def Let_def next_analysisID_def)

subsection \<open>\<^verbatim>\<open>generatePdf\<close>: the steps through the commit\<close>

lemma steps1to6_db: "db (snd (generatePdf_steps1to6 env req w)) = db w"
  by (simp add: generatePdf_steps1to6_def pdf_caught_def emit_def Let_def
      split: option.splits sum.splits)

lemma metadata_transaction_success:
  assumes "metadata_transaction env req rd w = (Inr fileID, w')"
  shows "fileID = pe_new_id env \<and> analyses (db w') = analyses (db w)
         \<and> files (db w') fileID
             = Some \<lparr>file_owner = Some (rd_userId rd), file_path = Some (rd_filePath rd),
                   filename = Some (rd_pdfTitle rd), file_type = Some (ustr ''Generated''),
                   uploadDate = Some (pe_now env), lastUpdate = Some (pe_now env),
                   numAnalysis = Some 0, analysis = Map.empty\<rparr>"
  using assms
  by (auto simp: metadata_transaction_def emit_def Let_def split: option.splits)

lemma metadata_transaction_failure:
  assumes "metadata_transaction env req rd w = (Inl e, w')"
  shows "db w' = db w"
  using assms
  by (auto simp: metadata_transaction_def emit_def Let_def split: option.splits)

lemma step7to8_success:
  assumes "generatePdf_step7to8 env req rd w = (Inr fileID, w')"
  shows "fileID = pe_new_id env \<and> analyses (db w') = analyses (db w)
         \<and> files (db w') fileID
             = Some \<lparr>file_owner = Some (rd_userId rd), file_path = Some (rd_filePath rd),
                   filename = Some (rd_pdfTitle rd), file_type = Some (ustr ''Generated''),
                   uploadDate = Some (pe_now env), lastUpdate = Some (pe_now env),
                   numAnalysis = Some 0, analysis = Map.empty\<rparr>"
proof -
  from assms obtain w3 where m: "metadata_transaction env req rd w3 = (Inr fileID, w')"
    and w3: "db w3 = db w"
    by (auto simp: generatePdf_step7to8_def pdf_caught_def emit_def Let_def
        split: option.splits sum.splits prod.splits if_splits)
  from metadata_transaction_success [OF m] w3 show ?thesis by auto
qed

lemma through_commit_success:
  assumes "fst (generatePdf_through_commit env req w) = Inr (rd, fileID)"
  shows "fileID = pe_new_id env
         \<and> analyses (db (snd (generatePdf_through_commit env req w))) = analyses (db w)
         \<and> files (db (snd (generatePdf_through_commit env req w))) fileID
             = Some \<lparr>file_owner = Some (rd_userId rd), file_path = Some (rd_filePath rd),
                   filename = Some (rd_pdfTitle rd), file_type = Some (ustr ''Generated''),
                   uploadDate = Some (pe_now env), lastUpdate = Some (pe_now env),
                   numAnalysis = Some 0, analysis = Map.empty\<rparr>"
proof -
  obtain r1 w1 where s1: "generatePdf_steps1to6 env req w = (r1, w1)"
    by (cases "generatePdf_steps1to6 env req w")
  with assms obtain rd' where r1: "r1 = Inr rd'"
    by (cases r1) (auto simp: generatePdf_through_commit_def)
  obtain r2 w2 where s2: "generatePdf_step7to8 env req rd' w1 = (r2, w2)"
    by (cases "generatePdf_step7to8 env req rd' w1")
  with assms s1 r1 have r2: "r2 = Inr fileID" and rd: "rd' = rd"
    by (cases r2; auto simp: generatePdf_through_commit_def)+
  have w1: "db w1 = db w"
    using steps1to6_db [of env req w] s1 by simp
  have w2: "snd (generatePdf_through_commit env req w) = w2"
    using s1 r1 s2 r2 by (simp add: generatePdf_through_commit_def)
  from step7to8_success [OF s2 [unfolded r2]] w1 w2 rd show ?thesis by auto
qed





lemma generatePdf_analysis_failure:
  assumes "analyzeResumeText (pe_analyze env) (rd_resumeText rd) fileID (rd_filePath rd) w
             = (Inl analysisError, w')"
  shows "generatePdf_analysis env rd fileID w
           = (pdf_success_response rd fileID, emit (Log (ErrorFailedToAnalyze analysisError)) w')"
  using assms by (simp add: generatePdf_analysis_def)

subsection \<open>Steps and schedules: what is left untouched\<close>




lemma run_schedule_analyze_alone:
  "run_schedule [0] [Analyze env resumeText fileID filePath] w
     = ([Returned (fst (analyzeResumeText env resumeText fileID filePath w))],
        snd (analyzeResumeText env resumeText fileID filePath w))"
  by (simp split: prod.splits)

lemma run_schedule_generate_alone:
  "run_schedule [0, 0] [Generate env req] w
     = ([Responded (fst (generatePdf env req w))], snd (generatePdf env req w))"
  by (simp add: generatePdf_def split: prod.splits sum.splits)

section \<open>The parsing step (C8, C9)\<close>

text \<open>
  C8. The parsing step is total: on every raw text it returns a value and never raises.
  On the text \<^verbatim>\<open>{"summary":"x"}\<close> it returns the decoded object, whose \<open>summary\<close> is
  \<open>x\<close>; on the text \<^verbatim>\<open>not json\<close> it returns the fallback object whose \<open>rawText\<close>
  is the original text.
\<close>

theorem parse_total:
  \<open>(\<forall>raw. \<exists>v. parse raw = Inr v)
   \<and> parse (ustr ''{"summary":"x"}'') = Inr (JObj [(ustr ''summary'', JStr (ustr ''x''))])
   \<and> parse (ustr ''not json'') = Inr (JObj [(ustr ''rawText'', JStr (ustr ''not json''))])\<close>
proof (intro conjI allI)
  fix raw
  show "\<exists>v. parse raw = Inr v"
    by (cases "JSON_parse raw") (simp_all add: parse_def try_catch_def)
next
  show \<open>parse (ustr ''{"summary":"x"}'') = Inr (JObj [(ustr ''summary'', JStr (ustr ''x''))])\<close>
    by code_simp
next
  show "parse (ustr ''not json'') = Inr (JObj [(ustr ''rawText'', JStr (ustr ''not json''))])"
    by code_simp
qed

text \<open>
  C9 as stated does not hold: the result of the parsing step carries no tag. A text that
  decodes (to an object with the single property \<open>rawText\<close>) and a text that does not
  decode give the same result, so nothing in the result tells the structured case from the
  fallback.
\<close>

theorem parse_tag_counterexample:
  \<open>JSON_parse (ustr ''{"rawText":"not json"}'')
     = Inr (JObj [(ustr ''rawText'', JStr (ustr ''not json''))])
   \<and> JSON_parse (ustr ''not json'') = Inl SyntaxError
   \<and> parse (ustr ''{"rawText":"not json"}'') = parse (ustr ''not json'')\<close>
  by code_simp

text \<open>
  C9, amended. The result is untagged: when the text decodes the result is the decoded
  value itself, and when it does not the result is an object with the one property
  \<open>rawText\<close> holding the original text; the fallback is recognisable only by that
  property.
\<close>

theorem parse_untagged:
  "parse raw =
     Inr (case JSON_parse raw of
            Inr v \<Rightarrow> v
          | Inl e \<Rightarrow> JObj [(ustr ''rawText'', JStr raw)])"
  by (cases "JSON_parse raw") (simp_all add: parse_def try_catch_def)

section \<open>Versioning under concurrent requests (C1, C2)\<close>

text \<open>
  C1 requires that N concurrent appends to one Document leave its count raised by N, with
  N distinct positions. The code does not achieve this for \<^verbatim>\<open>generateNewAnalysis\<close>: on
  the store \<open>chain1\<close> (count 1), two requests that both read before either commits are
  both answered with the identifier \<open>f1-2\<close>, and the count ends at 2 with the positions
  1 and 2 only; one increment is lost and one position is assigned twice.
\<close>

theorem concurrent_regenerations_lose_update:
  "fst (run_schedule [0, 1, 0, 1]
          [Regenerate no_faults regenerate_request, Regenerate no_faults regenerate_request] chain1)
     = [Responded (200, NewAnalysisID (ustr ''f1-2'')), Responded (200, NewAnalysisID (ustr ''f1-2''))]
   \<and> map_option numAnalysis
        (files (db (snd (run_schedule [0, 1, 0, 1]
          [Regenerate no_faults regenerate_request, Regenerate no_faults regenerate_request] chain1)))
          (ustr ''f1''))
      = Some (Some 2)
   \<and> map_option (\<lambda>d. dom (analysis d))
        (files (db (snd (run_schedule [0, 1, 0, 1]
          [Regenerate no_faults regenerate_request, Regenerate no_faults regenerate_request] chain1)))
          (ustr ''f1''))
      = Some {1, 2}"
  by (simp add: gna_defs sample_defs parse_empty_object sample_ids sample_distinct insert_commute)

text \<open>
  C2 requires that the count an append increments is read inside the transaction that
  writes it. \<^verbatim>\<open>generateNewAnalysis\<close> reads it before: when an \<^verbatim>\<open>analyzeResumeText\<close>
  transaction commits between the request's read and its transaction, the store's count
  is 2 when the request's transaction runs, and the request still writes 2 (its snapshot
  1 plus one) and answers with \<open>f1-2\<close>, the identifier the other invocation was given.
\<close>

theorem regeneration_increments_stale_snapshot:
  "map_option numAnalysis
     (files (db (snd (run_schedule [0, 1]
        [Regenerate no_faults regenerate_request,
         Analyze analysis_succeeds (ustr ''cv'') (ustr ''f1'') (ustr ''u1/cv.pdf'')] chain1)))
        (ustr ''f1''))
     = Some (Some 2)
   \<and> fst (run_schedule [0, 1, 0]
        [Regenerate no_faults regenerate_request,
         Analyze analysis_succeeds (ustr ''cv'') (ustr ''f1'') (ustr ''u1/cv.pdf'')] chain1)
     = [Responded (200, NewAnalysisID (ustr ''f1-2'')), Returned (Inr (JObj []))]
   \<and> map_option numAnalysis
     (files (db (snd (run_schedule [0, 1, 0]
        [Regenerate no_faults regenerate_request,
         Analyze analysis_succeeds (ustr ''cv'') (ustr ''f1'') (ustr ''u1/cv.pdf'')] chain1)))
        (ustr ''f1''))
     = Some (Some 2)"
  by (simp add: gna_defs analyze_defs sample_defs parse_empty_object sample_ids sample_distinct
      short_text)

section \<open>The chain of analyses (C3, C4)\<close>

text \<open>
  C3 as stated does not hold: on the chain of length 2, a request naming the analysis at
  position 1 (whose \<open>nextAnalysis\<close> is \<open>f1-2\<close>) is answered with status 200 and the new
  identifier \<open>f1-3\<close>; the Document's count becomes 3 and the \<open>nextAnalysis\<close> of position
  1 becomes \<open>f1-3\<close>.
\<close>

theorem stale_predecessor_counterexample:
  "map_option nextAnalysis (analyses (db chain2) (ustr ''f1-1'')) = Some (Some (ustr ''f1-2''))
   \<and> fst (generateNewAnalysis no_faults regenerate_request chain2)
       = (200, NewAnalysisID (ustr ''f1-3''))
   \<and> map_option nextAnalysis
        (analyses (db (snd (generateNewAnalysis no_faults regenerate_request chain2))) (ustr ''f1-1''))
      = Some (Some (ustr ''f1-3''))
   \<and> map_option numAnalysis
        (files (db (snd (generateNewAnalysis no_faults regenerate_request chain2))) (ustr ''f1''))
      = Some (Some 3)"
  by (simp add: gna_defs sample_defs parse_empty_object sample_ids sample_distinct)

text \<open>
  C3, amended. \<^verbatim>\<open>generateNewAnalysis\<close> makes no check that the analysis named by
  \<open>analysisID\<close> is the head of its chain. For a request with all four fields truthy whose
  \<open>analysisID\<close> names an existing analysis with \<open>nextAnalysis\<close> already set, whose
  \<open>fileID\<close> names an existing file document with a path and a count that is a safe
  integer, and for which every outside call and the transaction succeed, the operation
  succeeds: the response is 200 with the new identifier, made of the file identifier and
  the count plus one; the new analysis document is written under it (owner of the file
  document, the file identifier, the parsed model output, the timestamp, the model name,
  no rating, no comment, no \<open>nextAnalysis\<close>); the file document's \<open>numAnalysis\<close> is the
  count plus one, its index maps that position to the new identifier and its
  \<open>lastUpdate\<close> is the timestamp; the \<open>nextAnalysis\<close> of the named analysis is
  overwritten with the new identifier; nothing else in the store changes, and the calls
  made are the two reads, the download, the text extraction, the model call and the
  transaction.
\<close>

theorem generateNewAnalysis_accepts_stale_predecessor:
  assumes req: "req_fileID req = Some fid" "fid \<noteq> []" "req_analysisID req = Some aid" "aid \<noteq> []"
               "req_userRating req = Some rating" "rating \<noteq> 0"
               "req_userComment req = Some comment" "comment \<noteq> []"
      and pred: "analyses (db w) aid = Some previous" "nextAnalysis previous = Some successor"
      and fdoc: "files (db w) fid = Some fileDoc" "file_path fileDoc = Some path" "path \<noteq> []"
                "safe_integer (or_zero (numAnalysis fileDoc))"
      and ok: "ge_get_analysis env = None" "ge_vertex env = None" "ge_get_file env = None"
              "ge_download env = None" "ge_pdfParse env = None" "ge_generate env = Inr reply"
              "parse (raw_text reply) = Inr parsed" "ge_commit_fault env = None"
  shows "generateNewAnalysis env req w =
           (let newIndex = or_zero (numAnalysis fileDoc) + 1;
                newID = fid @ ustr ''-'' @ show_int newIndex;
                created = \<lparr>analysis_owner = file_owner fileDoc, analysis_fileID = fid,
                           content = parsed, generateTime = ge_now env,
                           model = ustr ''gemini-2.5-flash'', userRating = None,
                           userComment = None, nextAnalysis = None\<rparr>
            in ((200, NewAnalysisID newID),
                \<lparr>db = (db w)
                   \<lparr>files := (files (db w))
                      (fid \<mapsto> fileDoc\<lparr>lastUpdate := Some (ge_now env),
                                      numAnalysis := Some newIndex,
                                      analysis := (analysis fileDoc)(newIndex \<mapsto> newID)\<rparr>),
                    analyses := (analyses (db w))
                      (newID \<mapsto> created,
                       aid \<mapsto> (if aid = newID then created else previous)
                                 \<lparr>nextAnalysis := Some newID\<rparr>)\<rparr>,
                 trace = trace w @ [StoreGet (ustr ''analysis'') aid, StoreGet (ustr ''file'') fid,
                                    BlobDownload path, PdfParse, ModelCall, RunTransaction]\<rparr>))"
  using assms
  by (auto simp: gna_defs analysisID_of_def GENERATION_MODEL_def)

text \<open>
  Witness for C3, amended: the request naming position 1 of the chain of length 2.
\<close>

theorem generateNewAnalysis_accepts_stale_predecessor_witness:
  "fst (generateNewAnalysis no_faults regenerate_request chain2)
     = (200, NewAnalysisID (ustr ''f1-3''))
   \<and> analyses (db (snd (generateNewAnalysis no_faults regenerate_request chain2))) (ustr ''f1-1'')
      = Some (first_analysis\<lparr>nextAnalysis := Some (ustr ''f1-3'')\<rparr>)
   \<and> analyses (db (snd (generateNewAnalysis no_faults regenerate_request chain2))) (ustr ''f1-3'')
      = Some \<lparr>analysis_owner = Some (ustr ''u1''), analysis_fileID = ustr ''f1'',
              content = JObj [], generateTime = 10, model = ustr ''gemini-2.5-flash'',
              userRating = None, userComment = None, nextAnalysis = None\<rparr>
   \<and> map_option numAnalysis
        (files (db (snd (generateNewAnalysis no_faults regenerate_request chain2))) (ustr ''f1''))
      = Some (Some 3)
   \<and> map_option (\<lambda>d. analysis d 3)
        (files (db (snd (generateNewAnalysis no_faults regenerate_request chain2))) (ustr ''f1''))
      = Some (Some (ustr ''f1-3''))"
proof -
  have ids: "ustr ''f1'' @ ustr ''-'' @ show_int 3 = ustr ''f1-3''"
    by code_simp
  show ?thesis
    using generateNewAnalysis_accepts_stale_predecessor
      [where req = regenerate_request and env = no_faults and w = chain2
        and fid = "ustr ''f1''" and aid = "ustr ''f1-1''" and rating = 4
        and comment = "ustr ''more detail''"
        and previous = "first_analysis\<lparr>nextAnalysis := Some (ustr ''f1-2'')\<rparr>"
        and successor = "ustr ''f1-2''"
        and fileDoc = "uploaded_file\<lparr>lastUpdate := Some 2, numAnalysis := Some 2,
                                     analysis := [1 \<mapsto> ustr ''f1-1'', 2 \<mapsto> ustr ''f1-2'']\<rparr>"
        and path = "ustr ''u1/cv.pdf''" and reply = "Some (ustr ''{}'')" and parsed = "JObj []"]
    by (simp add: regenerate_request_def no_faults_def chain2_def uploaded_file_def
        first_analysis_def sample_distinct parse_empty_object safe_integer_def ids Let_def)
qed




section \<open>A missing Document (C5)\<close>

text \<open>
  C5 requires that an append to a Document that does not exist fails with NotFound and
  does not report success. \<^verbatim>\<open>generateNewAnalysis\<close> does so (status 404), and neither
  handler writes. \<^verbatim>\<open>analyzeResumeText\<close> does not fail: for the file identifier \<open>f9\<close>,
  absent from the store, the \<^verbatim>\<open>return\<close> at line 121 leaves the transaction callback
  only; the function then logs \<^verbatim>\<open>Analysis saved in Firestore for file\<close> and returns the
  parsed result, with the store as it was.
\<close>

theorem analyzeResumeText_missing_document_returns:
  "analyzeResumeText analysis_succeeds (ustr ''cv'') (ustr ''f9'') (ustr ''u1/cv.pdf'') chain1
     = (Inr (JObj []),
        chain1\<lparr>trace := [Log WarnTextTooShort, ModelCall, RunTransaction,
                          Log (ErrorFileDocNotFound (ustr ''f9'')),
                          Log (InfoAnalysisSaved (ustr ''f9'') (ustr ''u1/cv.pdf''))]\<rparr>)
   \<and> fst (generateNewAnalysis no_faults (regenerate_request\<lparr>req_fileID := Some (ustr ''f9'')\<rparr>)
            chain1)
     = (404, ErrorMessage (ustr ''File document not found.''))
   \<and> db (snd (generateNewAnalysis no_faults (regenerate_request\<lparr>req_fileID := Some (ustr ''f9'')\<rparr>)
                chain1))
     = db chain1"
  by (simp add: analyze_defs gna_defs sample_defs parse_empty_object sample_distinct short_text)

section \<open>The generation pipeline (C6, C7)\<close>

text \<open>
  C6. When the request passes validation, the model call returns (with a reply that does
  not parse to \<^verbatim>\<open>null\<close>, so that the rendering service is reached) and the rendering
  service answers with a status outside 200-299 and the body \<open>errorText\<close>, the handler
  responds with status 500, the error \<^verbatim>\<open>PDF generation failed\<close> and \<open>errorText\<close> as
  detail; the store is unchanged (no file document is created), and the only effects are
  the model call, the rendering call and the error log: no transaction runs.
\<close>

theorem generatePdf_rendering_failed:
  assumes "truthy_string (r_userId req)"
      and "truthy_string (r_name req) \<or> truthy_string (r_summary req)"
      and "pe_vertex env = None"
      and "pe_generate env = Inr reply"
      and "parse (raw_text reply) \<noteq> Inr JNull"
      and "pe_render env = Inr pdfResponse"
      and "\<not> resp_ok pdfResponse"
      and "resp_text pdfResponse = Inr errorText"
  shows "fst (generatePdf env req w) = (500, PdfGenerationFailed errorText)
         \<and> db (snd (generatePdf env req w)) = db w
         \<and> trace (snd (generatePdf env req w))
             = trace w @ [ModelCall, RenderCall, Log (ErrorPdfGenerationFailed errorText)]"
proof -
  obtain aiResponse where p: "parse (raw_text reply) = Inr aiResponse"
    using parse_returns by blast
  with assms have "aiResponse \<noteq> JNull" by simp
  with assms p show ?thesis
    by (auto simp: generatePdf_def generatePdf_through_commit_def generatePdf_steps1to6_def
        emit_def Let_def)
qed

text \<open>
  Witness for C6: the request for \<open>u1\<close> with a rendering service that rejects it.
\<close>

theorem generatePdf_rendering_failed_witness:
  "fst (generatePdf pdf_env_render_rejected pdf_request_ann chain1)
     = (500, PdfGenerationFailed (ustr ''bad margins''))
   \<and> db (snd (generatePdf pdf_env_render_rejected pdf_request_ann chain1)) = db chain1
   \<and> trace (snd (generatePdf pdf_env_render_rejected pdf_request_ann chain1))
       = [ModelCall, RenderCall, Log (ErrorPdfGenerationFailed (ustr ''bad margins''))]"
  using generatePdf_rendering_failed [where req = pdf_request_ann and env = pdf_env_render_rejected
      and reply = "Some (ustr ''{}'')" and pdfResponse = rendering_rejected
      and errorText = "ustr ''bad margins''" and w = chain1]
  by (simp add: pdf_sample_defs truthy_string_def sample_distinct parse_empty_object chain1_def)

text \<open>
  C7. When every step through the metadata commit succeeds, giving the rendered data
  \<open>rd\<close> and the file identifier \<open>fileID\<close>, and the call of \<^verbatim>\<open>analyzeResumeText\<close> that
  follows fails with \<open>analysisError\<close>, and no analysis document referred to the generated
  identifier before: the handler responds with status 200 and the success payload, whose
  \<open>fileID\<close> is the generated identifier and whose other fields are the storage path and
  the properties of the rendering service's answer; the last thing it does is log the
  failure; the store is as the commit left it, with the new file document (owner, path,
  title, type, timestamps, count 0, empty index) under the generated identifier; and no
  analysis document refers to that identifier.
\<close>

theorem generatePdf_analysis_failure_isolated:
  assumes commit: "fst (generatePdf_through_commit env req w) = Inr (rd, fileID)"
      and fails: "fst (analyzeResumeText (pe_analyze env) (rd_resumeText rd) fileID (rd_filePath rd)
                         (snd (generatePdf_through_commit env req w))) = Inl analysisError"
      and fresh: "\<forall>a d. analyses (db w) a = Some d \<longrightarrow> analysis_fileID d \<noteq> pe_new_id env"
  shows "fst (generatePdf env req w)
           = (200, PdfSuccess
                \<lparr>success_pdf_url = field (rd_pdfData rd) (ustr ''pdf_url''),
                 success_firebase_path = rd_filePath rd,
                 success_gcs_uri = field (rd_pdfData rd) (ustr ''gcs_uri''),
                 success_page_count = field (rd_pdfData rd) (ustr ''page_count''),
                 success_bytes = field (rd_pdfData rd) (ustr ''bytes''),
                 success_title = field (rd_pdfData rd) (ustr ''title''),
                 success_rendered_at = field (rd_pdfData rd) (ustr ''rendered_at''),
                 success_fileID = pe_new_id env\<rparr>)
         \<and> fileID = pe_new_id env
         \<and> trace (snd (generatePdf env req w)) \<noteq> []
         \<and> last (trace (snd (generatePdf env req w))) = Log (ErrorFailedToAnalyze analysisError)
         \<and> db (snd (generatePdf env req w)) = db (snd (generatePdf_through_commit env req w))
         \<and> files (db (snd (generatePdf env req w))) (pe_new_id env)
             = Some \<lparr>file_owner = Some (rd_userId rd), file_path = Some (rd_filePath rd),
                     filename = Some (rd_pdfTitle rd), file_type = Some (ustr ''Generated''),
                     uploadDate = Some (pe_now env), lastUpdate = Some (pe_now env),
                     numAnalysis = Some 0, analysis = Map.empty\<rparr>
         \<and> analyses (db (snd (generatePdf env req w))) = analyses (db w)
         \<and> (\<forall>a d. analyses (db (snd (generatePdf env req w))) a = Some d
                \<longrightarrow> analysis_fileID d \<noteq> pe_new_id env)"
proof -
  obtain w1 where tc: "generatePdf_through_commit env req w = (Inr (rd, fileID), w1)"
    using commit by (cases "generatePdf_through_commit env req w") simp
  obtain w2 where an: "analyzeResumeText (pe_analyze env) (rd_resumeText rd) fileID (rd_filePath rd) w1
                         = (Inl analysisError, w2)"
    using fails tc
    by (cases "analyzeResumeText (pe_analyze env) (rd_resumeText rd) fileID (rd_filePath rd) w1") simp
  have id: "fileID = pe_new_id env"
    and an1: "analyses (db w1) = analyses (db w)"
    and f1: "files (db w1) fileID
               = Some \<lparr>file_owner = Some (rd_userId rd), file_path = Some (rd_filePath rd),
                       filename = Some (rd_pdfTitle rd), file_type = Some (ustr ''Generated''),
                       uploadDate = Some (pe_now env), lastUpdate = Some (pe_now env),
                       numAnalysis = Some 0, analysis = Map.empty\<rparr>"
    using through_commit_success [OF commit] tc by auto
  have w2: "db w2 = db w1"
    using analyzeResumeText_failure_db [of "pe_analyze env" "rd_resumeText rd" fileID "rd_filePath rd" w1]
      an by simp
  have res: "generatePdf env req w
               = (pdf_success_response rd fileID, emit (Log (ErrorFailedToAnalyze analysisError)) w2)"
    by (simp add: generatePdf_def tc generatePdf_analysis_failure [OF an])
  show ?thesis
    using res id an1 f1 w2 fresh tc
    by (auto simp: emit_def pdf_success_response_def)
qed

text \<open>
  Witness for C7: the request for \<open>u1\<close> with a model service that is unavailable when
  the follow-up analysis calls it.
\<close>

theorem generatePdf_analysis_failure_isolated_witness:
  "fst (generatePdf pdf_env_analysis_down pdf_request_ann chain1)
     = (200, PdfSuccess
          \<lparr>success_pdf_url = Some (JStr (ustr ''https://render/1.pdf'')),
           success_firebase_path = ustr ''u1/Resume-2024-01-02-03-04-05-678.pdf'',
           success_gcs_uri = None, success_page_count = None, success_bytes = None,
           success_title = None, success_rendered_at = None,
           success_fileID = ustr ''g1''\<rparr>)
   \<and> last (trace (snd (generatePdf pdf_env_analysis_down pdf_request_ann chain1)))
       = Log (ErrorFailedToAnalyze (Fault (ustr ''unavailable'')))
   \<and> files (db (snd (generatePdf pdf_env_analysis_down pdf_request_ann chain1))) (ustr ''g1'')
       = Some \<lparr>file_owner = Some (ustr ''u1''),
               file_path = Some (ustr ''u1/Resume-2024-01-02-03-04-05-678.pdf''),
               filename = Some (ustr ''Resume''), file_type = Some (ustr ''Generated''),
               uploadDate = Some 20, lastUpdate = Some 20,
               numAnalysis = Some 0, analysis = Map.empty\<rparr>
   \<and> analyses (db (snd (generatePdf pdf_env_analysis_down pdf_request_ann chain1)))
       = analyses (db chain1)"
proof -
  have fails: "fst (analyzeResumeText (pe_analyze pdf_env_analysis_down) (rd_resumeText rendered_ann)
                      (ustr ''g1'') (rd_filePath rendered_ann)
                      (snd (generatePdf_through_commit pdf_env_analysis_down pdf_request_ann chain1)))
                 = Inl (Fault (ustr ''unavailable''))"
    by (simp add: analyze_defs pdf_sample_defs)
  have fresh: "\<forall>a d. analyses (db chain1) a = Some d
                 \<longrightarrow> analysis_fileID d \<noteq> pe_new_id pdf_env_analysis_down"
    by (simp add: chain1_def first_analysis_def pdf_sample_defs sample_distinct)
  have url: "field (rd_pdfData rendered_ann) (ustr ''pdf_url'')
               = Some (JStr (ustr ''https://render/1.pdf''))"
    "field (rd_pdfData rendered_ann) (ustr ''gcs_uri'') = None"
    "field (rd_pdfData rendered_ann) (ustr ''page_count'') = None"
    "field (rd_pdfData rendered_ann) (ustr ''bytes'') = None"
    "field (rd_pdfData rendered_ann) (ustr ''title'') = None"
    "field (rd_pdfData rendered_ann) (ustr ''rendered_at'') = None"
    by (simp add: rendered_ann_def; code_simp)+
  have env: "pe_new_id pdf_env_analysis_down = ustr ''g1''" "pe_now pdf_env_analysis_down = 20"
    by (simp_all add: pdf_env_analysis_down_def)
  have rd: "rd_filePath rendered_ann = ustr ''u1/Resume-2024-01-02-03-04-05-678.pdf''"
    "rd_userId rendered_ann = ustr ''u1''" "rd_pdfTitle rendered_ann = ustr ''Resume''"
    by (simp_all add: rendered_ann_def)
  note r = generatePdf_analysis_failure_isolated [OF through_commit_ann fails fresh]
  from r [unfolded url env rd] show ?thesis
    by (elim conjE) (intro conjI; assumption)
qed

section \<open>Falsy feedback (C10)\<close>

text \<open>
  C10. A \<^verbatim>\<open>generateNewAnalysis\<close> request whose \<open>userRating\<close> is 0 or whose
  \<open>userComment\<close> is the empty string is answered with status 400 and
  \<^verbatim>\<open>Missing required parameters.\<close>; the world is unchanged: no read of the store, no
  model call, no write, no log record.
\<close>

theorem generateNewAnalysis_rejects_falsy_feedback:
  assumes "req_userRating req = Some 0 \<or> req_userComment req = Some []"
  shows "generateNewAnalysis env req w
           = ((400, ErrorMessage (ustr ''Missing required parameters.'')), w)"
  using assms
  by (auto simp: generateNewAnalysis_def generateNewAnalysis_steps1to3_def truthy_number_def
      truthy_string_def)

text \<open>
  Witness for C10: the sample request with the rating 0, and with the empty comment.
\<close>

theorem generateNewAnalysis_rejects_falsy_feedback_witness:
  "generateNewAnalysis no_faults (regenerate_request\<lparr>req_userRating := Some 0\<rparr>) chain1
     = ((400, ErrorMessage (ustr ''Missing required parameters.'')), chain1)
   \<and> generateNewAnalysis no_faults (regenerate_request\<lparr>req_userComment := Some []\<rparr>) chain1
     = ((400, ErrorMessage (ustr ''Missing required parameters.'')), chain1)"
  using generateNewAnalysis_rejects_falsy_feedback
      [of "regenerate_request\<lparr>req_userRating := Some 0\<rparr>" no_faults chain1]
    generateNewAnalysis_rejects_falsy_feedback
      [of "regenerate_request\<lparr>req_userComment := Some []\<rparr>" no_faults chain1]
  by simp

end
